theory Spec2Isabelle
  imports Complex_Main "HOL-Library.Sublist" "HOL-Library.Multiset"
begin

section \<open>Python values and the string operations the program uses\<close>

text \<open>
  A Python \<open>str\<close> is a sequence of Unicode code points, so a text is a list of
  code points and its length counts code points. A value read out of a pandas
  row is \<open>None\<close>, a missing value (\<open>NaN\<close>, for which \<open>pd.isna\<close> holds), or any other
  value; the program never looks at such a value except through \<open>pd.isna\<close>,
  \<open>is None\<close>, \<open>str()\<close> and \<open>float()\<close>, so every other value, a text or a number, is
  kept as the text \<open>str()\<close> gives, from which \<open>float()\<close> reads a number back.
\<close>

type_synonym ustr = "nat list"

datatype cell = PyNone | NaN | Text ustr

definition isna :: "cell \<Rightarrow> bool" where
  "isna x = (case x of Text s \<Rightarrow> False | _ \<Rightarrow> True)"

definition py_str :: "cell \<Rightarrow> ustr" where
  "py_str x = (case x of
      PyNone \<Rightarrow> [0x4E, 0x6F, 0x6E, 0x65]
    | NaN \<Rightarrow> [0x6E, 0x61, 0x6E]
    | Text s \<Rightarrow> s)"

text \<open>
  \<open>str.isspace\<close> of a single code point: the set \<open>str.strip()\<close> removes and the
  class \<open>\s\<close> of \<open>re\<close> matches on a \<open>str\<close> pattern.
\<close>

definition py_isspace :: "nat \<Rightarrow> bool" where
  "py_isspace c = ((0x09 \<le> c \<and> c \<le> 0x0D) \<or> (0x1C \<le> c \<and> c \<le> 0x20) \<or> c = 0x85
     \<or> c = 0xA0 \<or> c = 0x1680 \<or> (0x2000 \<le> c \<and> c \<le> 0x200A) \<or> c = 0x2028
     \<or> c = 0x2029 \<or> c = 0x202F \<or> c = 0x205F \<or> c = 0x3000)"

definition strip :: "ustr \<Rightarrow> ustr" where
  "strip s = rev (dropWhile py_isspace (rev (dropWhile py_isspace s)))"

text \<open>\<open>s.replace(old, new)\<close> for an \<open>old\<close> of one code point, as every call of the program has it.\<close>

definition replace1 :: "nat \<Rightarrow> ustr \<Rightarrow> ustr \<Rightarrow> ustr" where
  "replace1 old new s = concat (map (\<lambda>c. if c = old then new else [c]) s)"

text \<open>\<open>re.sub(r"\s+", " ", s)\<close>: every maximal run of whitespace becomes one space.\<close>

function collapse_ws :: "ustr \<Rightarrow> ustr" where
  "collapse_ws [] = []"
| "collapse_ws (c # cs) =
     (if py_isspace c then 0x20 # collapse_ws (dropWhile py_isspace cs)
      else c # collapse_ws cs)"
  by pat_completeness auto
termination
  by (relation "measure length") (auto simp: length_dropWhile_le less_Suc_eq_le)

text \<open>\<open>s.split(sep)\<close> for a separator of one code point; the empty text splits into one empty piece.\<close>

fun split_on :: "nat \<Rightarrow> ustr \<Rightarrow> ustr list" where
  "split_on sep [] = [[]]"
| "split_on sep (c # cs) =
     (if c = sep then [] # split_on sep cs
      else (case split_on sep cs of
              [] \<Rightarrow> [[c]]
            | w # ws \<Rightarrow> (c # w) # ws))"

text \<open>\<open>" ".join(parts)\<close>.\<close>

fun join_sp :: "ustr list \<Rightarrow> ustr" where
  "join_sp [] = []"
| "join_sp [x] = x"
| "join_sp (x # y # zs) = x @ 0x20 # join_sp (y # zs)"

text \<open>
  The library functions whose tables or grammars are not part of the program are
  parameters of the model: Unicode normalisation and lower-casing, the regular
  expression engine of \<open>re.search(patt, target, re.IGNORECASE)\<close> (a pattern either
  fails to compile, which raises \<open>re.error\<close> whatever the target is, or is searched
  for), the text-to-float conversion \<open>float(s)\<close> (\<open>None\<close> where it raises), the two
  date parsers (a time stamp is an integer, \<open>None\<close> where \<open>strptime\<close> raises or
  \<open>pd.to_datetime\<close> gives \<open>NaT\<close>), and the sort permutation pandas takes from numpy
  for \<open>sort_values\<close> with the default \<open>kind\<close>, a function of the key column alone.
\<close>

datatype pyfloat = Fin real | PosInf | NegInf | NotANumber

record pylib =
  nfkc :: "ustr \<Rightarrow> ustr"
  str_lower :: "ustr \<Rightarrow> ustr"
  re_malformed :: "ustr \<Rightarrow> bool"
  re_found :: "ustr \<Rightarrow> ustr \<Rightarrow> bool"
  py_float :: "ustr \<Rightarrow> pyfloat option"
  strptime :: "ustr \<Rightarrow> ustr \<Rightarrow> int option"
  pd_to_datetime :: "ustr \<Rightarrow> int option"
  argsort :: "int list \<Rightarrow> nat list"

datatype exn = ReError | KeyError

definition re_search :: "pylib \<Rightarrow> ustr \<Rightarrow> ustr \<Rightarrow> exn + bool" where
  "re_search L patt target =
     (if re_malformed L patt then Inl ReError else Inr (re_found L patt target))"

section \<open>Text normalizer\<close>

text \<open>
  \<open>_normalize_text\<close>: \<open>None\<close> gives the empty text; otherwise NFKC, the no-break space
  becomes a space and the zero-width space goes, whitespace runs collapse, the
  ends are trimmed, and the result is lower-cased.
\<close>

definition normalize_text :: "pylib \<Rightarrow> cell \<Rightarrow> ustr" where
  "normalize_text L s =
     (if s = PyNone then []
      else str_lower L (strip (collapse_ws
             (replace1 0x200B [] (replace1 0xA0 [0x20] (nfkc L (py_str s)))))))"

section \<open>Classifier\<close>

text \<open>A rule, with the six fields every rule of the loader has.\<close>

record rule =
  priority :: int
  merchant :: ustr
  keyword :: ustr
  category :: ustr
  subcategory :: ustr
  regex :: bool

text \<open>
  One condition of a rule, as both the merchant block and the keyword block of
  \<open>_classify\<close> evaluate it: in regex mode a search whose exception is caught and
  counts as a failure, in literal mode containment of one of the non-empty
  pieces between \<open>|\<close>. The result is the new value of \<open>ok\<close>.
\<close>

definition condition :: "pylib \<Rightarrow> bool \<Rightarrow> ustr \<Rightarrow> ustr \<Rightarrow> exn + bool" where
  "condition L rx patt target =
     (if rx then
        (case re_search L patt target of
           Inl e \<Rightarrow> Inr False
         | Inr found \<Rightarrow> Inr found)
      else
        (let variants = filter (\<lambda>v. v \<noteq> []) (split_on 0x7C patt)
         in Inr (list_ex (\<lambda>v. sublist v target) variants)))"

text \<open>The body of the loop over the rules: the value of \<open>ok\<close> when \<open>if ok:\<close> is reached.\<close>

definition rule_ok :: "pylib \<Rightarrow> ustr \<Rightarrow> ustr \<Rightarrow> ustr \<Rightarrow> rule \<Rightarrow> exn + bool" where
  "rule_ok L mtext itext_join fulltext r =
     (case (if merchant r \<noteq> [] then
              condition L (regex r) (normalize_text L (Text (merchant r)))
                (if keyword r = [] then fulltext else mtext)
            else Inr True) of
        Inl e \<Rightarrow> Inl e
      | Inr ok \<Rightarrow>
          if ok \<and> keyword r \<noteq> [] then
            condition L (regex r) (normalize_text L (Text (keyword r))) itext_join
          else Inr ok)"

fun classify_loop :: "pylib \<Rightarrow> ustr \<Rightarrow> ustr \<Rightarrow> ustr \<Rightarrow> rule list \<Rightarrow> exn + (ustr \<times> ustr)" where
  "classify_loop L mtext itext_join fulltext [] = Inr ([], [])"
| "classify_loop L mtext itext_join fulltext (r # rs) =
     (case rule_ok L mtext itext_join fulltext r of
        Inl e \<Rightarrow> Inl e
      | Inr ok \<Rightarrow>
          if ok then Inr (category r, subcategory r)
          else classify_loop L mtext itext_join fulltext rs)"

definition classify :: "pylib \<Rightarrow> cell \<Rightarrow> cell \<Rightarrow> cell \<Rightarrow> rule list \<Rightarrow> exn + (ustr \<times> ustr)" where
  "classify L note merchant_v item rules =
     (let m_raw = (if merchant_v = PyNone then [] else py_str merchant_v);
          i_raw = (if item = PyNone then [] else py_str item);
          n_raw = (if note = PyNone then [] else py_str note);
          mtext = normalize_text L (Text m_raw);
          itext = normalize_text L (Text i_raw);
          ntext = normalize_text L (Text n_raw);
          itext_join = strip (join_sp [itext, ntext]);
          fulltext = strip (join_sp [mtext, itext, ntext])
      in classify_loop L mtext itext_join fulltext rules)"

section \<open>Rule repository\<close>

text \<open>
  The rule table after the column names are repaired and the missing columns are
  added: one value for each of the six columns. \<open>None\<close> for the whole table stands
  for a file that is absent or that no encoding can read.
\<close>

record rule_row =
  priority_cell :: cell
  merchant_cell :: cell
  keyword_cell :: cell
  category_cell :: cell
  subcategory_cell :: cell
  regex_cell :: cell

text \<open>
  \<open>float(x)\<close> of a row value: \<open>None\<close> raises, a missing value is the float NaN, any
  other value is read from its text. \<open>int(f)\<close> truncates towards zero and raises on
  NaN and on the infinities.
\<close>

definition float_val :: "pylib \<Rightarrow> cell \<Rightarrow> pyfloat option" where
  "float_val L x = (case x of
      PyNone \<Rightarrow> None
    | NaN \<Rightarrow> Some NotANumber
    | Text s \<Rightarrow> py_float L s)"

definition py_int :: "pyfloat \<Rightarrow> int option" where
  "py_int f = (case f of
      Fin x \<Rightarrow> Some (if 0 \<le> x then \<lfloor>x\<rfloor> else \<lceil>x\<rceil>)
    | _ \<Rightarrow> None)"

definition to_int :: "pylib \<Rightarrow> cell \<Rightarrow> int" where
  "to_int L x = (case float_val L x of
      None \<Rightarrow> 0
    | Some f \<Rightarrow> (case py_int f of None \<Rightarrow> 0 | Some n \<Rightarrow> n))"

definition text_or_empty :: "cell \<Rightarrow> ustr" where
  "text_or_empty x = (if isna x then [] else strip (py_str x))"

text \<open>One turn of the loop over the rows: \<open>None\<close> where the row is skipped.\<close>

definition row_rule :: "pylib \<Rightarrow> rule_row \<Rightarrow> rule option" where
  "row_rule L row =
     (let pri = to_int L (priority_cell row);
          cat = strip (py_str (if \<not> isna (category_cell row) then category_cell row
                               else Text []))
      in if cat = [] then None
         else Some \<lparr>priority = pri,
                    merchant = text_or_empty (merchant_cell row),
                    keyword = text_or_empty (keyword_cell row),
                    category = cat,
                    subcategory = text_or_empty (subcategory_cell row),
                    regex = (strip (py_str (regex_cell row)) \<in>
                               set [[0x31], [0x74, 0x72, 0x75, 0x65], [0x54, 0x72, 0x75, 0x65]])\<rparr>)"

text \<open>
  \<open>rules.sort(key=..., reverse=True)\<close>: Python reverses the list, sorts it
  stably in ascending order and reverses the result.
\<close>

definition sort_reverse :: "('a \<Rightarrow> int) \<Rightarrow> 'a list \<Rightarrow> 'a list" where
  "sort_reverse f xs = rev (sort_key f (rev xs))"

definition load_category_rules :: "pylib \<Rightarrow> rule_row list option \<Rightarrow> rule list" where
  "load_category_rules L file = (case file of
      None \<Rightarrow> []
    | Some df \<Rightarrow> sort_reverse priority (List.map_filter (row_rule L) df))"

section \<open>Source adapters\<close>

definition clean_amount :: "pylib \<Rightarrow> cell \<Rightarrow> pyfloat option" where
  "clean_amount L x =
     (if isna x then None
      else let s = replace1 0x2C [] (strip (py_str x));
               s = filter (\<lambda>c. c \<noteq> 0xFFE5 \<and> c \<noteq> 0xA5) s;
               s = replace1 0x29 [] (replace1 0x28 [0x2D] (replace1 0x3D [] s))
           in py_float L s)"

definition ascii :: "string \<Rightarrow> ustr" where
  "ascii s = map of_char s"

definition fmts :: "ustr list" where
  "fmts = map ascii
     [''%Y-%m-%d %H:%M:%S'', ''%Y-%m-%d %H:%M'', ''%Y-%m-%d'',
      ''%Y/%m/%d %H:%M:%S'', ''%Y/%m/%d %H:%M'', ''%Y/%m/%d'',
      ''%Y.%m.%d %H:%M:%S'', ''%Y.%m.%d %H:%M'', ''%Y.%m.%d'']"

fun first_parse :: "('a \<Rightarrow> 'b option) \<Rightarrow> 'a list \<Rightarrow> 'b option" where
  "first_parse p [] = None"
| "first_parse p (f # fs) = (case p f of Some d \<Rightarrow> Some d | None \<Rightarrow> first_parse p fs)"

definition to_date :: "pylib \<Rightarrow> cell \<Rightarrow> int option" where
  "to_date L s =
     (if isna s then None
      else let t = strip (py_str s)
           in (case first_parse (strptime L t) fmts of
                 Some d \<Rightarrow> Some d
               | None \<Rightarrow> pd_to_datetime L t))"

text \<open>
  A raw table: its column labels and its rows, each row one value for each
  label. \<open>cols\<close> maps a trimmed label to the label itself, a later label winning;
  \<open>r.get(c, default)\<close> gives the default for a column that was not found.
\<close>

record dataframe =
  columns :: "ustr list"
  rows :: "cell list list"

definition cols_dict :: "dataframe \<Rightarrow> ustr \<Rightarrow> ustr option" where
  "cols_dict df = map_of (rev (map (\<lambda>c. (strip c, c)) (columns df)))"

definition find_col :: "(ustr \<Rightarrow> ustr option) \<Rightarrow> ustr list \<Rightarrow> ustr option" where
  "find_col cols aliases =
     (case filter (\<lambda>k. cols k \<noteq> None) aliases of [] \<Rightarrow> None | k # ks \<Rightarrow> cols k)"

definition truthy :: "ustr option \<Rightarrow> bool" where
  "truthy c = (case c of None \<Rightarrow> False | Some name \<Rightarrow> name \<noteq> [])"

definition row_get :: "dataframe \<Rightarrow> cell list \<Rightarrow> ustr option \<Rightarrow> cell \<Rightarrow> cell" where
  "row_get df r c dflt = (case c of
      None \<Rightarrow> dflt
    | Some name \<Rightarrow> (case map_of (zip (columns df) r) name of None \<Rightarrow> dflt | Some v \<Rightarrow> v))"

text \<open>The texts of the direction column and of the output: expense U+652F U+51FA,
  income U+6536 U+5165, transfer out U+8F6C U+51FA, transfer in U+8F6C U+5165,
  refund U+9000 U+6B3E.\<close>

definition s_expense :: ustr where "s_expense = [0x652F, 0x51FA]"
definition s_income :: ustr where "s_income = [0x6536, 0x5165]"
definition s_transfer_out :: ustr where "s_transfer_out = [0x8F6C, 0x51FA]"
definition s_transfer_in :: ustr where "s_transfer_in = [0x8F6C, 0x5165]"
definition s_refund :: ustr where "s_refund = [0x9000, 0x6B3E]"

record txn =
  row_date :: "int option"
  row_type :: ustr
  row_amount :: pyfloat
  row_merchant :: cell
  row_item :: cell
  row_method :: cell
  row_status :: cell
  row_platform :: ustr
  row_note :: cell

definition py_abs :: "pyfloat \<Rightarrow> pyfloat" where
  "py_abs f = (case f of
      Fin x \<Rightarrow> Fin \<bar>x\<bar>
    | PosInf \<Rightarrow> PosInf
    | NegInf \<Rightarrow> PosInf
    | NotANumber \<Rightarrow> NotANumber)"

text \<open>The comparison \<open>f >= 0\<close> of floats: false for NaN.\<close>

definition float_ge0 :: "pyfloat \<Rightarrow> bool" where
  "float_ge0 f = (case f of
      Fin x \<Rightarrow> 0 \<le> x
    | PosInf \<Rightarrow> True
    | NegInf \<Rightarrow> False
    | NotANumber \<Rightarrow> False)"

definition float_lt0 :: "pyfloat \<Rightarrow> bool" where
  "float_lt0 f = (case f of
      Fin x \<Rightarrow> x < 0
    | PosInf \<Rightarrow> False
    | NegInf \<Rightarrow> True
    | NotANumber \<Rightarrow> False)"

definition alipay_type :: "ustr \<Rightarrow> ustr" where
  "alipay_type io =
     (if io \<in> set [s_expense, s_transfer_out] then s_expense
      else if io \<in> set [s_income, s_transfer_in] then s_income
      else s_expense)"

definition alipay_row ::
  "pylib \<Rightarrow> dataframe \<Rightarrow> ustr option \<Rightarrow> ustr option \<Rightarrow> ustr option \<Rightarrow> ustr option \<Rightarrow>
   ustr option \<Rightarrow> ustr option \<Rightarrow> ustr option \<Rightarrow> ustr option \<Rightarrow> cell list \<Rightarrow> txn option" where
  "alipay_row L df c_time c_io c_amount c_merchant c_item c_status c_method c_note r =
     (let dt = to_date L (row_get df r c_time PyNone)
      in (case clean_amount L (row_get df r c_amount PyNone) of
            None \<Rightarrow> None
          | Some amt \<Rightarrow>
              (let io = strip (py_str (row_get df r c_io (Text [])))
               in Some \<lparr>row_date = dt, row_type = alipay_type io, row_amount = py_abs amt,
                         row_merchant = row_get df r c_merchant (Text []),
                         row_item = row_get df r c_item (Text []),
                         row_method = row_get df r c_method (Text []),
                         row_status = row_get df r c_status (Text []),
                         row_platform = [0x41, 0x6C, 0x69, 0x70, 0x61, 0x79],
                         row_note = row_get df r c_note (Text [])\<rparr>)))"

definition parse_alipay :: "pylib \<Rightarrow> dataframe \<Rightarrow> txn list option" where
  "parse_alipay L df =
     (let cols = cols_dict df;
          c_time = find_col cols [[0x4EA4, 0x6613, 0x65F6, 0x95F4], [0x65F6, 0x95F4],
                     [0x521B, 0x5EFA, 0x65F6, 0x95F4], [0x652F, 0x4ED8, 0x65F6, 0x95F4]];
          c_io = find_col cols [[0x6536, 0x2F, 0x652F], [0x6536, 0x652F],
                     [0x6536, 0x652F, 0x7C7B, 0x578B]];
          c_amount = find_col cols [[0x91D1, 0x989D, 0xFF08, 0x5143, 0xFF09],
                     [0x91D1, 0x989D, 0x28, 0x5143, 0x29], [0x91D1, 0x989D],
                     [0x4EA4, 0x6613, 0x91D1, 0x989D]];
          c_merchant = find_col cols [[0x4EA4, 0x6613, 0x5BF9, 0x65B9], [0x5BF9, 0x65B9],
                     [0x5546, 0x5BB6], [0x5546, 0x6237, 0x540D, 0x79F0]];
          c_item = find_col cols [[0x5546, 0x54C1, 0x8BF4, 0x660E], [0x5546, 0x54C1],
                     [0x5546, 0x54C1, 0x540D, 0x79F0], [0x6807, 0x9898], [0x4E8B, 0x7531]];
          c_status = find_col cols [[0x4EA4, 0x6613, 0x72B6, 0x6001], [0x72B6, 0x6001]];
          c_method = find_col cols [[0x652F, 0x4ED8, 0x65B9, 0x5F0F],
                     [0x6536, 0x2F, 0x4ED8, 0x6B3E, 0x65B9, 0x5F0F],
                     [0x8D44, 0x91D1, 0x6E20, 0x9053]];
          c_note = find_col cols [[0x5907, 0x6CE8], [0x7528, 0x6237, 0x5907, 0x6CE8],
                     [0x9644, 0x8A00]]
      in if \<not> (truthy c_time \<and> truthy c_amount) then None
         else Some (List.map_filter
                (alipay_row L df c_time c_io c_amount c_merchant c_item c_status c_method c_note)
                (rows df)))"

definition wechat_type :: "ustr \<Rightarrow> ustr \<Rightarrow> ustr" where
  "wechat_type io typ_guess =
     (if io = s_expense then s_expense
      else if io = s_income then s_income
      else if list_ex (\<lambda>k. sublist k typ_guess) [s_refund, s_transfer_in, s_income]
           then s_income
           else s_expense)"

definition wechat_row ::
  "pylib \<Rightarrow> dataframe \<Rightarrow> ustr option \<Rightarrow> ustr option \<Rightarrow> ustr option \<Rightarrow> ustr option \<Rightarrow>
   ustr option \<Rightarrow> ustr option \<Rightarrow> ustr option \<Rightarrow> ustr option \<Rightarrow> ustr option \<Rightarrow>
   cell list \<Rightarrow> txn option" where
  "wechat_row L df c_time c_type c_amount c_io c_merchant c_item c_status c_method c_note r =
     (let dt = to_date L (row_get df r c_time PyNone)
      in (case clean_amount L (row_get df r c_amount PyNone) of
            None \<Rightarrow> None
          | Some amt \<Rightarrow>
              (let io = strip (py_str (row_get df r c_io (Text [])));
                   typ_guess = strip (py_str (row_get df r c_type (Text [])))
               in Some \<lparr>row_date = dt, row_type = wechat_type io typ_guess,
                         row_amount = py_abs amt,
                         row_merchant = row_get df r c_merchant (Text []),
                         row_item = row_get df r c_item (Text []),
                         row_method = row_get df r c_method (Text []),
                         row_status = row_get df r c_status (Text []),
                         row_platform = [0x57, 0x65, 0x43, 0x68, 0x61, 0x74],
                         row_note = row_get df r c_note (Text [])\<rparr>)))"

definition parse_wechat :: "pylib \<Rightarrow> dataframe \<Rightarrow> txn list option" where
  "parse_wechat L df =
     (let cols = cols_dict df;
          c_time = find_col cols [[0x4EA4, 0x6613, 0x65F6, 0x95F4], [0x65F6, 0x95F4],
                     [0x652F, 0x4ED8, 0x65F6, 0x95F4]];
          c_type = find_col cols [[0x4EA4, 0x6613, 0x7C7B, 0x578B], [0x7C7B, 0x578B]];
          c_amount = find_col cols [[0x91D1, 0x989D, 0x28, 0x5143, 0x29],
                     [0x91D1, 0x989D, 0xFF08, 0x5143, 0xFF09], [0x91D1, 0x989D],
                     [0x4EA4, 0x6613, 0x91D1, 0x989D, 0x28, 0x5143, 0x29]];
          c_io = find_col cols [[0x6536, 0x2F, 0x652F], [0x6536, 0x652F]];
          c_merchant = find_col cols [[0x4EA4, 0x6613, 0x5BF9, 0x65B9],
                     [0x5546, 0x6237, 0x540D, 0x79F0], [0x6536, 0x2F, 0x4ED8, 0x6B3E, 0x65B9]];
          c_item = find_col cols [[0x5546, 0x54C1], [0x5546, 0x54C1, 0x8BF4, 0x660E],
                     [0x5546, 0x54C1, 0x540D, 0x79F0]];
          c_status = find_col cols [[0x5F53, 0x524D, 0x72B6, 0x6001],
                     [0x4EA4, 0x6613, 0x72B6, 0x6001], [0x72B6, 0x6001]];
          c_method = find_col cols [[0x652F, 0x4ED8, 0x65B9, 0x5F0F],
                     [0x6536, 0x2F, 0x4ED8, 0x6B3E, 0x65B9, 0x5F0F],
                     [0x8D44, 0x91D1, 0x6E20, 0x9053]];
          c_note = find_col cols [[0x5907, 0x6CE8], [0x7528, 0x6237, 0x5907, 0x6CE8],
                     [0x9644, 0x8A00]]
      in if \<not> (truthy c_time \<and> truthy c_amount) then None
         else Some (List.map_filter
                (wechat_row L df c_time c_type c_amount c_io c_merchant c_item c_status
                   c_method c_note)
                (rows df)))"

section \<open>Merger\<close>

text \<open>
  \<open>main\<close> from the tables that were read (a file whose reading raises is skipped by
  the \<open>except\<close> clause and takes no part). It returns without output when no table
  is recognised; \<open>merged["date"]\<close> raises \<open>KeyError\<close> when the recognised tables have
  no row at all, since a frame built from an empty list has no column; otherwise
  the rows without a date or with a NaN amount are dropped (\<open>pd.to_datetime\<close> on
  the column keeps a time stamp and turns \<open>None\<close> into \<open>NaT\<close>, both \<open>None\<close> here),
  the rest is put in the order of \<open>argsort\<close> on the date column, whose result
  names positions of the table, and every row is classified.
\<close>

record ledger_row =
  txn_of :: txn
  row_category :: ustr
  row_subcategory :: ustr

datatype outcome = NoOutput | Raised exn | Done "ledger_row list"

definition adapt :: "pylib \<Rightarrow> dataframe \<Rightarrow> txn list option" where
  "adapt L df0 = (case parse_alipay L df0 of
      Some df \<Rightarrow> Some df
    | None \<Rightarrow> parse_wechat L df0)"

definition valid_rows :: "txn list \<Rightarrow> txn list" where
  "valid_rows merged = filter (\<lambda>t. row_date t \<noteq> None \<and> row_amount t \<noteq> NotANumber) merged"

definition sort_values :: "pylib \<Rightarrow> txn list \<Rightarrow> txn list" where
  "sort_values L xs = map (\<lambda>i. xs ! i) (argsort L (map (\<lambda>t. the (row_date t)) xs))"

fun classify_rows :: "pylib \<Rightarrow> rule list \<Rightarrow> txn list \<Rightarrow> exn + ledger_row list" where
  "classify_rows L rules [] = Inr []"
| "classify_rows L rules (t # ts) =
     (case classify L (row_note t) (row_merchant t) (row_item t) rules of
        Inl e \<Rightarrow> Inl e
      | Inr (c1, c2) \<Rightarrow>
          (case classify_rows L rules ts of
             Inl e \<Rightarrow> Inl e
           | Inr rest \<Rightarrow> Inr (\<lparr>txn_of = t, row_category = c1, row_subcategory = c2\<rparr> # rest)))"

definition main :: "pylib \<Rightarrow> dataframe list \<Rightarrow> rule_row list option \<Rightarrow> outcome" where
  "main L files rule_file =
     (let dfs = List.map_filter (adapt L) files
      in if dfs = [] then NoOutput
         else let merged = concat dfs
              in if merged = [] then Raised KeyError
                 else let merged = sort_values L (valid_rows merged);
                          rules = load_category_rules L rule_file
                      in if rules \<noteq> [] then
                           (case classify_rows L rules merged of
                              Inl e \<Rightarrow> Raised e
                            | Inr ledger \<Rightarrow> Done ledger)
                         else Done (map (\<lambda>t. \<lparr>txn_of = t, row_category = [],
                                               row_subcategory = []\<rparr>) merged))"

section \<open>The conditions of a rule, as the design describes them\<close>

text \<open>
  The three texts a transaction is matched on: each field normalised on its own,
  item and note joined by a space, and merchant, item and note joined by spaces
  (both joins trimmed, as the code computes them).
\<close>

definition field_text :: "pylib \<Rightarrow> cell \<Rightarrow> ustr" where
  "field_text L x = normalize_text L (Text (if x = PyNone then [] else py_str x))"

definition item_join :: "pylib \<Rightarrow> cell \<Rightarrow> cell \<Rightarrow> ustr" where
  "item_join L item note = strip (join_sp [field_text L item, field_text L note])"

definition full_text :: "pylib \<Rightarrow> cell \<Rightarrow> cell \<Rightarrow> cell \<Rightarrow> ustr" where
  "full_text L merchant_v item note =
     strip (join_sp [field_text L merchant_v, field_text L item, field_text L note])"

text \<open>
  A pattern matches a target: in regex mode the pattern compiles and is found in
  the target; in literal mode one of its non-empty aliases is contained in the
  target.
\<close>

definition pattern_matches :: "pylib \<Rightarrow> bool \<Rightarrow> ustr \<Rightarrow> ustr \<Rightarrow> bool" where
  "pattern_matches L rx patt target =
     (if rx then \<not> re_malformed L patt \<and> re_found L patt target
      else list_ex (\<lambda>v. v \<noteq> [] \<and> sublist v target) (split_on 0x7C patt))"

definition merchant_target :: "rule \<Rightarrow> ustr \<Rightarrow> ustr \<Rightarrow> ustr" where
  "merchant_target r mtext fulltext = (if keyword r \<noteq> [] then mtext else fulltext)"

text \<open>Every condition the rule declares holds: the merchant one and the keyword one.\<close>

definition conditions_hold :: "pylib \<Rightarrow> cell \<Rightarrow> cell \<Rightarrow> cell \<Rightarrow> rule \<Rightarrow> bool" where
  "conditions_hold L note merchant_v item r =
     ((merchant r \<noteq> [] \<longrightarrow>
         pattern_matches L (regex r) (normalize_text L (Text (merchant r)))
           (merchant_target r (field_text L merchant_v) (full_text L merchant_v item note)))
      \<and> (keyword r \<noteq> [] \<longrightarrow>
         pattern_matches L (regex r) (normalize_text L (Text (keyword r)))
           (item_join L item note)))"

section \<open>Texts in normal form\<close>

text \<open>
  A text is whitespace-normal when its only whitespace is single spaces between
  other code points or at the ends; it is clean when the three middle steps of
  the normaliser leave it as it is. \<open>rtrim\<close> removes trailing code points.
\<close>

fun ws_normal :: "ustr \<Rightarrow> bool" where
  "ws_normal [] = True"
| "ws_normal [c] = (py_isspace c \<longrightarrow> c = 0x20)"
| "ws_normal (c # d # cs) = ((py_isspace c \<longrightarrow> c = 0x20 \<and> \<not> py_isspace d) \<and> ws_normal (d # cs))"

definition rtrim :: "('a \<Rightarrow> bool) \<Rightarrow> 'a list \<Rightarrow> 'a list" where
  "rtrim P u = rev (dropWhile P (rev u))"

definition clean :: "ustr \<Rightarrow> bool" where
  "clean s = (0xA0 \<notin> set s \<and> 0x200B \<notin> set s \<and> strip (collapse_ws s) = s)"

text \<open>
  What the statements below ask of \<open>str.lower\<close>: the empty text stays empty,
  lower-casing twice is lower-casing once, and lower-casing a clean text gives a
  clean text (it makes no whitespace and no zero-width space).
\<close>

definition lower_ok :: "pylib \<Rightarrow> bool" where
  "lower_ok L = (str_lower L [] = [] \<and> (\<forall>s. str_lower L (str_lower L s) = str_lower L s)
     \<and> (\<forall>s. clean s \<longrightarrow> clean (str_lower L s)))"

text \<open>
  A rule with its two patterns replaced by their normal forms; a pattern that the
  replacement keeps in its role: normalising it twice is normalising it once, and
  its normal form is empty only when the pattern is.
\<close>

definition normalize_rule :: "pylib \<Rightarrow> rule \<Rightarrow> rule" where
  "normalize_rule L r = r\<lparr>merchant := normalize_text L (Text (merchant r)),
                           keyword := normalize_text L (Text (keyword r))\<rparr>"

definition pattern_kept :: "pylib \<Rightarrow> ustr \<Rightarrow> bool" where
  "pattern_kept L p =
     (normalize_text L (Text (normalize_text L (Text p))) = normalize_text L (Text p)
      \<and> ((normalize_text L (Text p) = []) = (p = [])))"

definition aliases_all_empty :: "ustr \<Rightarrow> bool" where
  "aliases_all_empty patt = list_all (\<lambda>v. v = []) (split_on 0x7C patt)"

text \<open>A rule in literal mode with a declared pattern all of whose aliases are empty.\<close>

definition no_alias :: "pylib \<Rightarrow> rule \<Rightarrow> bool" where
  "no_alias L r = (\<not> regex r \<and>
     ((merchant r \<noteq> [] \<and> aliases_all_empty (normalize_text L (Text (merchant r))))
      \<or> (keyword r \<noteq> [] \<and> aliases_all_empty (normalize_text L (Text (keyword r))))))"

text \<open>A rule in regex mode one of whose declared patterns, as the engine receives it
  (normalised), does not compile.\<close>

definition rx_broken :: "pylib \<Rightarrow> rule \<Rightarrow> bool" where
  "rx_broken L r = (regex r \<and>
     ((merchant r \<noteq> [] \<and> re_malformed L (normalize_text L (Text (merchant r))))
      \<or> (keyword r \<noteq> [] \<and> re_malformed L (normalize_text L (Text (keyword r))))))"

section \<open>Notions of the statements about the loader, the adapters and the merger\<close>

text \<open>
  The category of a row of the rule table after trimming, as the design speaks of
  it: the text of the cell without the whitespace at its ends; a cell that holds
  no value has the empty category.
\<close>

definition trimmed_category :: "cell \<Rightarrow> ustr" where
  "trimmed_category c = (case c of Text s \<Rightarrow> strip s | _ \<Rightarrow> [])"

text \<open>The priority of a row does not parse: \<open>int(float(x))\<close> raises.\<close>

definition parse_fails :: "pylib \<Rightarrow> cell \<Rightarrow> bool" where
  "parse_fails L x = (case float_val L x of None \<Rightarrow> True | Some f \<Rightarrow> py_int f = None)"

text \<open>
  What the documentation of the sort promises for the default \<open>kind\<close>: the result
  is a permutation of the positions that puts the keys in ascending order. It
  promises nothing on the order of equal keys (the default kind is \<open>quicksort\<close>,
  which numpy documents as not stable).
\<close>

definition argsort_ok :: "pylib \<Rightarrow> bool" where
  "argsort_ok L = (\<forall>ks. mset (argsort L ks) = mset [0..<length ks]
                        \<and> sorted (map (\<lambda>i. ks ! i) (argsort L ks)))"

text \<open>The concatenated adapter output after the rows without date or amount are dropped;
  the date column of a ledger; a row with the columns the classifier adds.\<close>

definition merged_valid :: "pylib \<Rightarrow> dataframe list \<Rightarrow> txn list" where
  "merged_valid L files = valid_rows (concat (List.map_filter (adapt L) files))"

definition ledger_dates :: "ledger_row list \<Rightarrow> int list" where
  "ledger_dates ledger = map (\<lambda>l. the (row_date (txn_of l))) ledger"

definition classified :: "pylib \<Rightarrow> rule list \<Rightarrow> txn \<Rightarrow> ledger_row" where
  "classified L rules t =
     (case find (conditions_hold L (row_note t) (row_merchant t) (row_item t)) rules of
        None \<Rightarrow> \<lparr>txn_of = t, row_category = [], row_subcategory = []\<rparr>
      | Some r \<Rightarrow> \<lparr>txn_of = t, row_category = category r, row_subcategory = subcategory r\<rparr>)"












section \<open>A sample library for the closed examples\<close>

text \<open>
  The closed examples need the library functions at concrete texts. The sample
  library implements a fragment of each, enough for the texts of the examples, on
  which it agrees with Python: lower-casing of the ASCII letters; NFKC on the
  no-break space, the ideographic space and the full-width ASCII block, with the
  composition of \<open>a\<close> and a following combining acute accent (U+0301) into
  U+00E1; a regex engine that searches a pattern of letters, digits and CJK
  ideographs as it stands, or the inside of such a pattern put in one pair of
  ASCII parentheses (a group), ignoring ASCII case, and rejects every other
  pattern, as Python rejects an opening parenthesis that nothing closes and a
  closing one that nothing opens; \<open>float\<close> on an optional sign followed by
  \<open>nan\<close>, \<open>inf\<close> or \<open>infinity\<close> in any case or by decimal digits with an optional
  fraction (the value is the exact decimal, which is the Python float whenever
  that is a binary fraction); \<open>strptime\<close> on a text \<open>YYYY-MM-DD\<close> of a valid
  calendar day with the format \<open>%Y-%m-%d\<close>, to a number that grows with the day;
  \<open>pd.to_datetime\<close> giving \<open>NaT\<close>; and the sort permutation of a stable insertion
  sort, which is what numpy computes on a short array.
\<close>

definition sample_lower :: "ustr \<Rightarrow> ustr" where
  "sample_lower s = map (\<lambda>c. if 0x41 \<le> c \<and> c \<le> 0x5A then c + 0x20 else c) s"

definition compat_cp :: "nat \<Rightarrow> nat" where
  "compat_cp c = (if c = 0xA0 \<or> c = 0x3000 then 0x20
                  else if 0xFF01 \<le> c \<and> c \<le> 0xFF5E then c - 0xFEE0 else c)"

fun compose_acute :: "ustr \<Rightarrow> ustr" where
  "compose_acute (a # b # cs) =
     (if a = 0x61 \<and> b = 0x301 then 0xE1 # compose_acute cs
      else a # compose_acute (b # cs))"
| "compose_acute cs = cs"

definition sample_nfkc :: "ustr \<Rightarrow> ustr" where
  "sample_nfkc s = compose_acute (map compat_cp s)"

definition plain_cp :: "nat \<Rightarrow> bool" where
  "plain_cp c = ((0x30 \<le> c \<and> c \<le> 0x39) \<or> (0x41 \<le> c \<and> c \<le> 0x5A)
     \<or> (0x61 \<le> c \<and> c \<le> 0x7A) \<or> (0x4E00 \<le> c \<and> c \<le> 0x9FFF))"

definition sample_group :: "ustr \<Rightarrow> bool" where
  "sample_group patt = (2 \<le> length patt \<and> hd patt = 0x28 \<and> last patt = 0x29
                        \<and> list_all plain_cp (butlast (tl patt)))"

definition sample_malformed :: "ustr \<Rightarrow> bool" where
  "sample_malformed patt = (\<not> (list_all plain_cp patt \<or> sample_group patt))"

definition sample_found :: "ustr \<Rightarrow> ustr \<Rightarrow> bool" where
  "sample_found patt target =
     sublist (sample_lower (if sample_group patt then butlast (tl patt) else patt))
       (sample_lower target)"

definition is_digit :: "nat \<Rightarrow> bool" where
  "is_digit c = (0x30 \<le> c \<and> c \<le> 0x39)"

fun digits_value :: "nat \<Rightarrow> ustr \<Rightarrow> nat" where
  "digits_value acc [] = acc"
| "digits_value acc (c # cs) = digits_value (10 * acc + (c - 0x30)) cs"

definition sample_unsigned :: "ustr \<Rightarrow> real option" where
  "sample_unsigned s =
     (let ip = takeWhile is_digit s; rest = dropWhile is_digit s
      in if rest = [] then (if ip = [] then None else Some (real (digits_value 0 ip)))
         else if hd rest = 0x2E \<and> list_all is_digit (tl rest) \<and> (ip \<noteq> [] \<or> tl rest \<noteq> [])
              then Some (real (digits_value 0 (ip @ tl rest)) / 10 ^ length (tl rest))
              else None)"

definition sample_float :: "ustr \<Rightarrow> pyfloat option" where
  "sample_float s =
     (let neg = (s \<noteq> [] \<and> hd s = 0x2D);
          body = (if s \<noteq> [] \<and> (hd s = 0x2D \<or> hd s = 0x2B) then tl s else s);
          word = sample_lower body
      in if word = [0x6E, 0x61, 0x6E] then Some NotANumber
         else if word = [0x69, 0x6E, 0x66] \<or> word = [0x69, 0x6E, 0x66, 0x69, 0x6E, 0x69, 0x74, 0x79]
              then Some (if neg then NegInf else PosInf)
              else (case sample_unsigned body of
                      None \<Rightarrow> None
                    | Some x \<Rightarrow> Some (Fin (if neg then - x else x))))"

definition days_in_month :: "nat \<Rightarrow> nat \<Rightarrow> nat" where
  "days_in_month y m =
     (if m = 2 then (if y mod 4 = 0 \<and> (y mod 100 \<noteq> 0 \<or> y mod 400 = 0) then 29 else 28)
      else if m = 4 \<or> m = 6 \<or> m = 9 \<or> m = 11 then 30 else 31)"

definition sample_strptime :: "ustr \<Rightarrow> ustr \<Rightarrow> int option" where
  "sample_strptime s f =
     (if f = ascii ''%Y-%m-%d'' \<and> length s = 10 \<and> s ! 4 = 0x2D \<and> s ! 7 = 0x2D
         \<and> list_all is_digit (take 4 s) \<and> list_all is_digit (take 2 (drop 5 s))
         \<and> list_all is_digit (drop 8 s)
      then (let y = digits_value 0 (take 4 s); m = digits_value 0 (take 2 (drop 5 s));
                d = digits_value 0 (drop 8 s)
            in if 1 \<le> y \<and> 1 \<le> m \<and> m \<le> 12 \<and> 1 \<le> d \<and> d \<le> days_in_month y m
               then Some (int ((y * 12 + (m - 1)) * 31 + (d - 1)))
               else None)
      else None)"

definition sample_argsort :: "int list \<Rightarrow> nat list" where
  "sample_argsort ks = map snd (sort_key fst (zip ks [0..<length ks]))"

definition sample_lib :: pylib where
  "sample_lib = \<lparr>nfkc = sample_nfkc, str_lower = sample_lower,
                  re_malformed = sample_malformed, re_found = sample_found,
                  py_float = sample_float, strptime = sample_strptime,
                  pd_to_datetime = (\<lambda>s. None), argsort = sample_argsort\<rparr>"

text \<open>
  A second sort permutation that keeps the promise of the documentation: an
  insertion sort that starts from the last position, so that equal keys come out
  in reverse order.
\<close>

definition unstable_argsort :: "int list \<Rightarrow> nat list" where
  "unstable_argsort ks = map snd (sort_key fst (rev (zip ks [0..<length ks])))"

definition tie_lib :: pylib where
  "tie_lib = sample_lib\<lparr>argsort := unstable_argsort\<rparr>"

section \<open>Sample tables for the closed examples\<close>

text \<open>
  Column labels: transaction time U+4EA4 U+6613 U+65F6 U+95F4, amount U+91D1
  U+989D, amount with the unit in ASCII parentheses, counterparty U+4EA4 U+6613
  U+5BF9 U+65B9, transaction type U+4EA4 U+6613 U+7C7B U+578B, direction U+6536
  \<open>/\<close> U+652F. \<open>frame\<close> is a table with the columns time, amount and counterparty.
\<close>

definition time_col :: ustr where "time_col = [0x4EA4, 0x6613, 0x65F6, 0x95F4]"
definition amount_col :: ustr where "amount_col = [0x91D1, 0x989D]"
definition merchant_col :: ustr where "merchant_col = [0x4EA4, 0x6613, 0x5BF9, 0x65B9]"

definition frame :: "(string \<times> string \<times> string) list \<Rightarrow> dataframe" where
  "frame rs = \<lparr>columns = [time_col, amount_col, merchant_col],
               rows = map (\<lambda>(d, a, m). [Text (ascii d), Text (ascii a), Text (ascii m)]) rs\<rparr>"

text \<open>The row the Alipay adapter makes of a row of \<open>frame\<close>, and a ledger row without category.\<close>

definition alipay_txn :: "int \<Rightarrow> pyfloat \<Rightarrow> string \<Rightarrow> txn" where
  "alipay_txn d a m = \<lparr>row_date = Some d, row_type = s_expense, row_amount = a,
     row_merchant = Text (ascii m), row_item = Text [], row_method = Text [],
     row_status = Text [], row_platform = [0x41, 0x6C, 0x69, 0x70, 0x61, 0x79],
     row_note = Text []\<rparr>"

definition unclassified :: "txn \<Rightarrow> ledger_row" where
  "unclassified t = \<lparr>txn_of = t, row_category = [], row_subcategory = []\<rparr>"

text \<open>The amount text of the design's scenario: an opening parenthesis, the yen sign
  U+00A5, \<open>1,234.50\<close> and a closing parenthesis.\<close>

definition paren_amount :: ustr where "paren_amount = [0x28, 0xA5] @ ascii ''1,234.50)''"

definition paren_frame :: dataframe where
  "paren_frame = \<lparr>columns = [time_col, amount_col, merchant_col],
     rows = [[Text (ascii ''2024-01-05''), Text paren_amount, Text (ascii ''a'')]]\<rparr>"






text \<open>A row of the rule table with a priority, a merchant pattern and a category.\<close>

definition rule_row_of :: "string \<Rightarrow> string \<Rightarrow> string \<Rightarrow> rule_row" where
  "rule_row_of p m c = \<lparr>priority_cell = Text (ascii p), merchant_cell = Text (ascii m),
     keyword_cell = NaN, category_cell = Text (ascii c), subcategory_cell = NaN,
     regex_cell = Text (ascii ''0'')\<rparr>"

section \<open>Evaluation of the closed examples\<close>

lemmas text_eval = py_str_def isna_def strip_def py_isspace_def replace1_def ascii_def
  sublist_code prefix_code

lemmas sample_eval = sample_lib_def sample_nfkc_def compat_cp_def sample_lower_def
  sample_malformed_def sample_found_def sample_group_def plain_cp_def

lemmas classify_eval = conditions_hold_def pattern_matches_def merchant_target_def
  full_text_def item_join_def field_text_def normalize_text_def

lemmas frame_eval = frame_def time_col_def amount_col_def merchant_col_def alipay_txn_def
  unclassified_def

lemmas adapter_eval = adapt_def parse_alipay_def parse_wechat_def cols_dict_def find_col_def truthy_def
  List.map_filter_simps alipay_row_def wechat_row_def row_get_def to_date_def fmts_def
  clean_amount_def alipay_type_def wechat_type_def s_expense_def s_income_def s_transfer_out_def
  s_transfer_in_def s_refund_def py_abs_def sample_strptime_def days_in_month_def
  sample_float_def sample_unsigned_def is_digit_def


lemmas loader_eval = load_category_rules_def sort_reverse_def List.map_filter_simps row_rule_def
  trimmed_category_def text_or_empty_def to_int_def float_val_def py_int_def parse_fails_def
  sample_float_def sample_unsigned_def is_digit_def rule_row_of_def

section \<open>Classifier: first match wins\<close>

lemma condition_total:
  "condition L rx patt target = Inr (pattern_matches L rx patt target)"
  by (auto simp: condition_def pattern_matches_def re_search_def list_ex_iff)

lemma rule_ok_total:
  "rule_ok L (field_text L m) (item_join L i n) (full_text L m i n) r
     = Inr (conditions_hold L n m i r)"
  by (auto simp: rule_ok_def condition_total conditions_hold_def merchant_target_def)

lemma classify_loop_find:
  assumes "\<And>r. rule_ok L mt ij ft r = Inr (P r)"
  shows "classify_loop L mt ij ft rs =
           Inr (case find P rs of None \<Rightarrow> ([], []) | Some r \<Rightarrow> (category r, subcategory r))"
  by (induction rs) (simp_all add: assms)

lemma classify_unfold:
  "classify L n m i rules =
     classify_loop L (field_text L m) (item_join L i n) (full_text L m i n) rules"
  by (simp add: classify_def field_text_def item_join_def full_text_def Let_def)

lemma classify_pure:
  "classify L n m i rules =
     Inr (case find (conditions_hold L n m i) rules of
            None \<Rightarrow> ([], [])
          | Some r \<Rightarrow> (category r, subcategory r))"
  unfolding classify_unfold by (rule classify_loop_find) (rule rule_ok_total)

lemma find_skip: "\<not> P r \<Longrightarrow> find P (rs1 @ r # rs2) = find P (rs1 @ rs2)"
  by (induction rs1) simp_all

lemma classify_skip:
  assumes "\<not> conditions_hold L n m i r"
  shows "classify L n m i (rs1 @ r # rs2) = classify L n m i (rs1 @ rs2)"
  using assms by (simp add: classify_pure find_skip)

lemma find_first: "\<forall>q\<in>set rs1. \<not> P q \<Longrightarrow> P r \<Longrightarrow> find P (rs1 @ r # rs2) = Some r"
  by (induction rs1) simp_all

text \<open>
  C1. For every transaction and every rule sequence, \<open>_classify\<close> returns the category
  and subcategory of the first rule of the sequence all of whose declared
  conditions hold, and the pair of empty texts when there is no such rule: the
  result is that of a search for the first such rule; when no rule of the sequence
  has its conditions hold the result is the empty pair; and when one has, and
  none before it, the result is its pair, whatever rules come after it.
\<close>

theorem classify_first_match:
  "classify L note merchant_v item rules =
     Inr (case find (conditions_hold L note merchant_v item) rules of
            None \<Rightarrow> ([], [])
          | Some r \<Rightarrow> (category r, subcategory r))
   \<and> ((\<forall>q\<in>set rules. \<not> conditions_hold L note merchant_v item q) \<longrightarrow>
        classify L note merchant_v item rules = Inr ([], []))
   \<and> ((\<forall>q\<in>set rs1. \<not> conditions_hold L note merchant_v item q)
        \<and> conditions_hold L note merchant_v item r \<longrightarrow>
        classify L note merchant_v item (rs1 @ r # rs2) = Inr (category r, subcategory r))"
proof (intro conjI impI)
  show "classify L note merchant_v item rules =
     Inr (case find (conditions_hold L note merchant_v item) rules of
            None \<Rightarrow> ([], [])
          | Some r \<Rightarrow> (category r, subcategory r))"
    by (rule classify_pure)
next
  assume "\<forall>q\<in>set rules. \<not> conditions_hold L note merchant_v item q"
  then have "find (conditions_hold L note merchant_v item) rules = None"
    by (simp add: find_None_iff)
  then show "classify L note merchant_v item rules = Inr ([], [])"
    by (simp add: classify_pure)
next
  assume "(\<forall>q\<in>set rs1. \<not> conditions_hold L note merchant_v item q)
        \<and> conditions_hold L note merchant_v item r"
  then have "find (conditions_hold L note merchant_v item) (rs1 @ r # rs2) = Some r"
    by (simp add: find_first)
  then show "classify L note merchant_v item (rs1 @ r # rs2) = Inr (category r, subcategory r)"
    by (simp add: classify_pure)
qed

text \<open>
  The example of the design: a rule of priority 10 and category \<open>A\<close> and a rule of
  priority 5 and category \<open>B\<close> both match; the category is \<open>A\<close>.
\<close>

theorem classify_first_match_witness:
  "conditions_hold sample_lib (Text []) (Text (ascii ''KFC 1'')) (Text [])
     \<lparr>priority = 10, merchant = ascii ''kfc'', keyword = [], category = ascii ''A'',
        subcategory = [], regex = False\<rparr>
   \<and> conditions_hold sample_lib (Text []) (Text (ascii ''KFC 1'')) (Text [])
     \<lparr>priority = 5, merchant = [], keyword = [], category = ascii ''B'',
        subcategory = [], regex = False\<rparr>
   \<and> classify sample_lib (Text []) (Text (ascii ''KFC 1'')) (Text [])
     [\<lparr>priority = 10, merchant = ascii ''kfc'', keyword = [], category = ascii ''A'',
        subcategory = [], regex = False\<rparr>,
      \<lparr>priority = 5, merchant = [], keyword = [], category = ascii ''B'',
        subcategory = [], regex = False\<rparr>] = Inr (ascii ''A'', [])"
proof -
  let ?r1 = "\<lparr>priority = 10, merchant = ascii ''kfc'', keyword = [], category = ascii ''A'',
        subcategory = [], regex = False\<rparr>"
  let ?r2 = "\<lparr>priority = 5, merchant = [], keyword = [], category = ascii ''B'',
        subcategory = [], regex = False\<rparr>"
  have h1: "conditions_hold sample_lib (Text []) (Text (ascii ''KFC 1'')) (Text []) ?r1"
    by (simp add: classify_eval sample_eval text_eval)
  have h2: "conditions_hold sample_lib (Text []) (Text (ascii ''KFC 1'')) (Text []) ?r2"
    by (simp add: classify_eval)
  from classify_first_match [of sample_lib "Text []" "Text (ascii ''KFC 1'')" "Text []" "[?r1, ?r2]"
      "[]" ?r1 "[?r2]"] h1
  have "classify sample_lib (Text []) (Text (ascii ''KFC 1'')) (Text []) [?r1, ?r2]
      = Inr (ascii ''A'', [])"
    by simp
  with h1 h2 show ?thesis by blast
qed

section \<open>Classifier: the text each condition is matched on\<close>

text \<open>
  C3. For a rule with a category: when it has a merchant pattern and a keyword
  pattern, it matches exactly when the merchant pattern matches the normalised
  merchant field alone and the keyword pattern matches item and note joined; when
  it has a merchant pattern only, exactly when that pattern matches the full text
  of merchant, item and note; when it has a keyword pattern only, exactly when
  that pattern matches item and note joined, whatever the merchant is.
\<close>

theorem classify_match_targets:
  "category r \<noteq> [] \<longrightarrow>
     (merchant r \<noteq> [] \<and> keyword r \<noteq> [] \<longrightarrow>
        (classify L note merchant_v item [r] = Inr (category r, subcategory r)) =
        (pattern_matches L (regex r) (normalize_text L (Text (merchant r))) (field_text L merchant_v)
         \<and> pattern_matches L (regex r) (normalize_text L (Text (keyword r))) (item_join L item note)))
     \<and> (merchant r \<noteq> [] \<and> keyword r = [] \<longrightarrow>
        (classify L note merchant_v item [r] = Inr (category r, subcategory r)) =
        pattern_matches L (regex r) (normalize_text L (Text (merchant r)))
          (full_text L merchant_v item note))
     \<and> (keyword r \<noteq> [] \<and> merchant r = [] \<longrightarrow>
        (classify L note merchant_v item [r] = Inr (category r, subcategory r)) =
        pattern_matches L (regex r) (normalize_text L (Text (keyword r))) (item_join L item note)
        \<and> classify L note merchant_v item [r] = classify L note other_merchant item [r])"
  by (auto simp: classify_pure conditions_hold_def merchant_target_def)

text \<open>
  A rule with merchant \<open>kfc\<close> and a keyword: it matches when the merchant field holds
  \<open>KFC\<close> and the item holds the keyword, and no longer when the two fields are
  exchanged, although the full text still contains \<open>kfc\<close>.
\<close>

theorem classify_match_targets_witness:
  "classify sample_lib (Text []) (Text (ascii ''KFC'')) (Text [0x5957, 0x9910])
     [\<lparr>priority = 1, merchant = ascii ''kfc'', keyword = [0x5957, 0x9910],
        category = ascii ''A'', subcategory = [], regex = False\<rparr>] = Inr (ascii ''A'', [])
   \<and> classify sample_lib (Text []) (Text [0x5957, 0x9910]) (Text (ascii ''KFC''))
     [\<lparr>priority = 1, merchant = ascii ''kfc'', keyword = [0x5957, 0x9910],
        category = ascii ''A'', subcategory = [], regex = False\<rparr>] \<noteq> Inr (ascii ''A'', [])"
  using classify_match_targets [of "\<lparr>priority = 1, merchant = ascii ''kfc'',
        keyword = [0x5957, 0x9910], category = ascii ''A'', subcategory = [], regex = False\<rparr>"
        sample_lib "Text []" "Text (ascii ''KFC'')" "Text [0x5957, 0x9910]"]
    classify_match_targets [of "\<lparr>priority = 1, merchant = ascii ''kfc'',
        keyword = [0x5957, 0x9910], category = ascii ''A'', subcategory = [], regex = False\<rparr>"
        sample_lib "Text []" "Text [0x5957, 0x9910]" "Text (ascii ''KFC'')"]
  by (simp add: classify_eval sample_eval text_eval)

section \<open>Classifier: malformed patterns\<close>

text \<open>
  C4, as amended. A rule in regex mode with a declared pattern whose normal form,
  the text \<open>_classify\<close> hands to the regex engine, does not compile never matches:
  with it or without it in the rule list the result is the same, so the rules
  after it are still tried. And for every input \<open>_classify\<close> returns a pair: no
  exception reaches the caller.
\<close>

theorem classify_malformed_regex:
  "(rx_broken L r \<longrightarrow>
      classify L note merchant_v item (rs1 @ r # rs2) = classify L note merchant_v item (rs1 @ rs2))
   \<and> (\<exists>c s. classify L note merchant_v item rules = Inr (c, s))"
proof (intro conjI impI)
  assume "rx_broken L r"
  then have "\<not> conditions_hold L note merchant_v item r"
    by (auto simp: rx_broken_def conditions_hold_def pattern_matches_def)
  then show "classify L note merchant_v item (rs1 @ r # rs2) = classify L note merchant_v item (rs1 @ rs2)"
    by (rule classify_skip)
next
  show "\<exists>c s. classify L note merchant_v item rules = Inr (c, s)"
    by (simp add: classify_pure split: option.splits)
qed

text \<open>
  The pattern \<open>(\<close> does not compile; the rule that carries it is passed over and
  the next rule gives the category.
\<close>

theorem classify_malformed_regex_witness:
  "rx_broken sample_lib \<lparr>priority = 9, merchant = ascii ''('', keyword = [],
        category = ascii ''A'', subcategory = [], regex = True\<rparr>
   \<and> classify sample_lib (Text []) (Text (ascii ''(x'')) (Text [])
       [\<lparr>priority = 9, merchant = ascii ''('', keyword = [],
          category = ascii ''A'', subcategory = [], regex = True\<rparr>,
        \<lparr>priority = 1, merchant = ascii ''x'', keyword = [],
          category = ascii ''B'', subcategory = [], regex = True\<rparr>] = Inr (ascii ''B'', [])"
  using classify_malformed_regex [of sample_lib "\<lparr>priority = 9, merchant = ascii ''('',
        keyword = [], category = ascii ''A'', subcategory = [], regex = True\<rparr>"
      "Text []" "Text (ascii ''(x'')" "Text []" "[]"
      "[\<lparr>priority = 1, merchant = ascii ''x'', keyword = [],
          category = ascii ''B'', subcategory = [], regex = True\<rparr>]"]
  by (simp add: rx_broken_def classify_pure classify_eval sample_eval text_eval)


text \<open>
  C4 as stated speaks of the pattern of the rule as it is written. A pattern of a
  full-width opening parenthesis, \<open>a\<close> and an ASCII closing parenthesis does not
  compile as written (the closing parenthesis has nothing to close); its normal
  form is the group \<open>(a)\<close>, which compiles, and the rule matches a merchant \<open>a\<close>.
\<close>

theorem classify_malformed_regex_counterexample:
  "re_malformed sample_lib [0xFF08, 0x61, 0x29]
   \<and> classify sample_lib (Text []) (Text (ascii ''a'')) (Text [])
       [\<lparr>priority = 1, merchant = [0xFF08, 0x61, 0x29], keyword = [],
          category = ascii ''A'', subcategory = [], regex = True\<rparr>] = Inr (ascii ''A'', [])
   \<and> classify sample_lib (Text []) (Text (ascii ''a'')) (Text []) [] = Inr ([], [])"
  by (simp add: classify_pure classify_eval sample_eval text_eval)

section \<open>Text normalizer: normalising twice\<close>

lemma ws_normal_Cons_nonspace: "\<not> py_isspace c \<Longrightarrow> ws_normal (c # xs) = ws_normal xs"
  by (cases xs) simp_all

lemma ws_normal_tl: "ws_normal (c # cs) \<Longrightarrow> ws_normal cs"
  by (cases cs) simp_all

lemma collapse_ws_fixed: "ws_normal u \<Longrightarrow> collapse_ws u = u"
  by (induction u rule: ws_normal.induct) auto

lemma ws_normal_collapse: "ws_normal (collapse_ws t)"
proof (induction t rule: collapse_ws.induct)
  case 1
  show ?case by simp
next
  case (2 c cs)
  show ?case
  proof (cases "py_isspace c")
    case False
    with 2 show ?thesis by (simp add: ws_normal_Cons_nonspace)
  next
    case True
    then have eq: "collapse_ws (c # cs) = 0x20 # collapse_ws (dropWhile py_isspace cs)"
      by simp
    show ?thesis
    proof (cases "dropWhile py_isspace cs")
      case Nil
      show ?thesis unfolding eq Nil by simp
    next
      case (Cons d w)
      then have d: "\<not> py_isspace d"
        by (metis hd_dropWhile list.sel(1) list.distinct(1))
      from 2(1) [OF True] have "ws_normal (collapse_ws (d # w))" unfolding Cons .
      with d show ?thesis unfolding eq Cons by simp
    qed
  qed
qed

lemma ws_normal_ltrim: "ws_normal u \<Longrightarrow> ws_normal (dropWhile py_isspace u)"
  by (induction u) (auto dest: ws_normal_tl)

lemma rtrim_Nil: "rtrim P [] = []"
  by (simp add: rtrim_def)

lemma rtrim_Cons:
  "rtrim P (c # cs) =
     (if \<forall>x\<in>set cs. P x then (if P c then [] else [c]) else c # rtrim P cs)"
  by (simp add: rtrim_def dropWhile_append)

lemma rtrim_hd: "\<not> P d \<Longrightarrow> \<exists>w. rtrim P (d # cs) = d # w"
  by (simp add: rtrim_Cons)

lemma ws_normal_rtrim: "ws_normal u \<Longrightarrow> ws_normal (rtrim py_isspace u)"
proof (induction u rule: ws_normal.induct)
  case 1
  show ?case by (simp add: rtrim_Nil)
next
  case (2 c)
  then show ?case by (simp add: rtrim_Cons)
next
  case (3 c d cs)
  from 3(2) have "ws_normal (d # cs)" by simp
  then have ih: "ws_normal (rtrim py_isspace (d # cs))" by (rule 3(1))
  show ?case
  proof (cases "\<forall>x\<in>set (d # cs). py_isspace x")
    case True
    have "rtrim py_isspace (c # d # cs) = (if py_isspace c then [] else [c])"
      by (subst rtrim_Cons) (use True in auto)
    then show ?thesis by simp
  next
    case False
    have eq: "rtrim py_isspace (c # d # cs) = c # rtrim py_isspace (d # cs)"
      by (subst rtrim_Cons) (use False in auto)
    show ?thesis
    proof (cases "py_isspace c")
      case False
      with ih show ?thesis unfolding eq by (simp add: ws_normal_Cons_nonspace)
    next
      case True
      with 3(2) have c: "c = 0x20" and d: "\<not> py_isspace d" by simp_all
      from rtrim_hd [of py_isspace d cs] d obtain w where w: "rtrim py_isspace (d # cs) = d # w"
        by blast
      from ih c d show ?thesis unfolding eq w by simp
    qed
  qed
qed

lemma strip_trim: "strip u = rtrim py_isspace (dropWhile py_isspace u)"
  by (simp add: strip_def rtrim_def)

lemma ws_normal_strip: "ws_normal u \<Longrightarrow> ws_normal (strip u)"
  unfolding strip_trim by (intro ws_normal_rtrim ws_normal_ltrim)

lemma trim_commute: "dropWhile P (rtrim P u) = rtrim P (dropWhile P u)"
proof (induction u)
  case Nil
  show ?case by (simp add: rtrim_Nil)
next
  case (Cons c cs)
  show ?case
  proof (cases "\<forall>x\<in>set cs. P x")
    case True
    then have nil: "dropWhile P cs = []" by simp
    have "rtrim P (dropWhile P (c # cs)) = (if P c then [] else [c])"
      using True by (auto simp: nil rtrim_Nil rtrim_Cons)
    moreover have "dropWhile P (rtrim P (c # cs)) = (if P c then [] else [c])"
      using True by (auto simp: rtrim_Cons)
    ultimately show ?thesis by simp
  next
    case False
    then show ?thesis using Cons by (auto simp: rtrim_Cons)
  qed
qed

lemma rtrim_idem: "rtrim P (rtrim P u) = rtrim P u"
  by (simp add: rtrim_def)

lemma strip_idem: "strip (strip u) = strip u"
  by (simp add: strip_trim trim_commute rtrim_idem)

lemma set_strip: "set (strip s) \<subseteq> set s"
  unfolding strip_def
  by (metis set_dropWhileD set_rev subsetI)

lemma set_collapse_ws: "set (collapse_ws s) \<subseteq> insert 0x20 (set s)"
proof (induction s rule: collapse_ws.induct)
  case 1
  show ?case by simp
next
  case (2 c cs)
  have "set (dropWhile py_isspace cs) \<subseteq> set cs"
    by (auto dest: set_dropWhileD)
  with 2 show ?case by auto
qed

lemma replace1_notin: "a \<notin> set new \<Longrightarrow> a \<notin> set (replace1 a new s)"
  by (induction s) (auto simp: replace1_def)

lemma replace1_keeps_out: "x \<notin> set s \<Longrightarrow> x \<notin> set new \<Longrightarrow> x \<notin> set (replace1 a new s)"
  by (induction s) (auto simp: replace1_def)

lemma replace1_id: "a \<notin> set s \<Longrightarrow> replace1 a new s = s"
  by (induction s) (auto simp: replace1_def)

lemma clean_core:
  "clean (strip (collapse_ws (replace1 0x200B [] (replace1 0xA0 [0x20] t))))"
proof -
  let ?s1 = "replace1 0xA0 [0x20] t"
  let ?s2 = "replace1 0x200B [] ?s1"
  let ?z = "strip (collapse_ws ?s2)"
  have a1: "0xA0 \<notin> set ?s1" by (rule replace1_notin) simp
  have a2: "0xA0 \<notin> set ?s2" by (rule replace1_keeps_out [OF a1]) simp
  have b2: "0x200B \<notin> set ?s2" by (rule replace1_notin) simp
  have sub: "set ?z \<subseteq> insert 0x20 (set ?s2)"
    using set_strip set_collapse_ws by blast
  have "ws_normal ?z" by (intro ws_normal_strip ws_normal_collapse)
  then have "collapse_ws ?z = ?z" by (rule collapse_ws_fixed)
  then have "strip (collapse_ws ?z) = ?z" by (simp add: strip_idem)
  moreover have "0xA0 \<notin> set ?z" using sub a2 by auto
  moreover have "0x200B \<notin> set ?z" using sub b2 by auto
  ultimately show ?thesis by (simp add: clean_def)
qed

text \<open>
  C5, as amended. \<open>_normalize_text\<close> is a total function; \<open>None\<close> normalises to the
  empty text, and so does the empty text (NFKC and lower-casing keep it empty);
  normalising twice equals normalising once for every text whose normal form
  NFKC leaves unchanged. It does not hold for every text: see the theorem after
  this one.
\<close>

theorem normalize_idempotent_when_stable:
  "normalize_text L PyNone = []
   \<and> (nfkc L [] = [] \<and> str_lower L [] = [] \<longrightarrow> normalize_text L (Text []) = [])
   \<and> (lower_ok L \<and> nfkc L (normalize_text L x) = normalize_text L x \<longrightarrow>
        normalize_text L (Text (normalize_text L x)) = normalize_text L x)"
proof (intro conjI impI)
  show "normalize_text L PyNone = []" by (simp add: normalize_text_def)
next
  assume "nfkc L [] = [] \<and> str_lower L [] = []"
  then show "normalize_text L (Text []) = []"
    by (simp add: normalize_text_def py_str_def replace1_def strip_def)
next
  assume h: "lower_ok L \<and> nfkc L (normalize_text L x) = normalize_text L x"
  let ?y = "normalize_text L x"
  have cl: "clean ?y"
  proof (cases "x = PyNone")
    case True
    then show ?thesis by (simp add: normalize_text_def clean_def strip_def)
  next
    case False
    then show ?thesis using h clean_core [of "nfkc L (py_str x)"]
      by (simp add: normalize_text_def lower_ok_def)
  qed
  have low: "str_lower L ?y = ?y"
  proof (cases "x = PyNone")
    case True
    then show ?thesis using h by (simp add: normalize_text_def lower_ok_def)
  next
    case False
    then show ?thesis using h by (simp add: normalize_text_def lower_ok_def)
  qed
  have "normalize_text L (Text ?y) =
      str_lower L (strip (collapse_ws (replace1 0x200B [] (replace1 0xA0 [0x20] (nfkc L ?y)))))"
    by (simp add: normalize_text_def py_str_def)
  also have "\<dots> = str_lower L (strip (collapse_ws ?y))"
    using h cl by (simp add: clean_def replace1_id)
  also have "\<dots> = ?y" using cl low by (simp add: clean_def)
  finally show "normalize_text L (Text ?y) = ?y" .
qed

text \<open>
  C5 as stated fails: NFKC leaves \<open>a\<close>, zero-width space, combining acute accent
  alone, the normaliser then removes the zero-width space, and a second pass
  composes the letter and the accent into U+00E1.
\<close>

theorem normalize_not_idempotent:
  "normalize_text sample_lib (Text (normalize_text sample_lib (Text [0x61, 0x200B, 0x301])))
     \<noteq> normalize_text sample_lib (Text [0x61, 0x200B, 0x301])"
  by (simp add: normalize_text_def sample_eval text_eval)

lemma collapse_ws_map:
  assumes "\<And>c. py_isspace (f c) = py_isspace c" and "f 0x20 = 0x20"
  shows "collapse_ws (map f s) = map f (collapse_ws s)"
proof (induction s rule: collapse_ws.induct)
  case 1
  show ?case by simp
next
  case (2 c cs)
  have dw: "dropWhile py_isspace (map f cs) = map f (dropWhile py_isspace cs)"
    by (simp add: dropWhile_map comp_def assms(1))
  show ?case using 2 by (simp add: assms dw)
qed

lemma strip_map:
  assumes "\<And>c. py_isspace (f c) = py_isspace c"
  shows "strip (map f s) = map f (strip s)"
proof -
  have dw: "dropWhile py_isspace (map f xs) = map f (dropWhile py_isspace xs)" for xs
    by (simp add: dropWhile_map comp_def assms)
  show ?thesis
    by (simp only: strip_def dw rev_map)
qed

lemma sample_lower_space: "py_isspace (if 0x41 \<le> c \<and> c \<le> 0x5A then c + 0x20 else c) = py_isspace c"
  by (auto simp: py_isspace_def)

lemma sample_lower_ok: "lower_ok sample_lib"
proof -
  let ?f = "\<lambda>c::nat. if 0x41 \<le> c \<and> c \<le> 0x5A then c + 0x20 else c"
  have sp: "\<And>c. py_isspace (?f c) = py_isspace c" by (rule sample_lower_space)
  have idem: "map ?f (map ?f s) = map ?f s" for s by (induction s) auto
  have cl: "clean (map ?f s)" if "clean s" for s
  proof -
    from that have a: "0xA0 \<notin> set s" and b: "0x200B \<notin> set s" and c: "strip (collapse_ws s) = s"
      by (simp_all add: clean_def)
    have "strip (collapse_ws (map ?f s)) = map ?f (strip (collapse_ws s))"
      using collapse_ws_map [of ?f s] strip_map [of ?f "collapse_ws s"] sp by simp
    moreover have "0xA0 \<notin> set (map ?f s)" using a by (auto split: if_splits)
    moreover have "0x200B \<notin> set (map ?f s)" using b by (auto split: if_splits)
    ultimately show ?thesis using c by (simp add: clean_def)
  qed
  show ?thesis
    unfolding lower_ok_def sample_lib_def sample_lower_def using idem cl by simp
qed

text \<open>
  A merchant name in full-width letters with a no-break space and an ideographic
  space: its normal form is \<open>kfc\<close>, a space and the two ideographs, NFKC leaves it
  unchanged, and it is its own normal form.
\<close>

theorem normalize_idempotent_when_stable_witness:
  "lower_ok sample_lib
   \<and> nfkc sample_lib (normalize_text sample_lib (Text [0xFF2B, 0xFF26, 0xFF23, 0xA0, 0x3000, 0x671D, 0x9633, 0x20]))
       = normalize_text sample_lib (Text [0xFF2B, 0xFF26, 0xFF23, 0xA0, 0x3000, 0x671D, 0x9633, 0x20])
   \<and> normalize_text sample_lib (Text [0xFF2B, 0xFF26, 0xFF23, 0xA0, 0x3000, 0x671D, 0x9633, 0x20])
       = [0x6B, 0x66, 0x63, 0x20, 0x671D, 0x9633]
   \<and> normalize_text sample_lib (Text (normalize_text sample_lib
         (Text [0xFF2B, 0xFF26, 0xFF23, 0xA0, 0x3000, 0x671D, 0x9633, 0x20])))
       = normalize_text sample_lib (Text [0xFF2B, 0xFF26, 0xFF23, 0xA0, 0x3000, 0x671D, 0x9633, 0x20])"
proof -
  let ?x = "Text [0xFF2B, 0xFF26, 0xFF23, 0xA0, 0x3000, 0x671D, 0x9633, 0x20]"
  have v: "normalize_text sample_lib ?x = [0x6B, 0x66, 0x63, 0x20, 0x671D, 0x9633]"
    by (simp add: normalize_text_def sample_eval text_eval)
  have st: "nfkc sample_lib (normalize_text sample_lib ?x) = normalize_text sample_lib ?x"
    unfolding v by (simp add: sample_eval)
  from normalize_idempotent_when_stable [of sample_lib ?x] sample_lower_ok st
  have "normalize_text sample_lib (Text (normalize_text sample_lib ?x)) = normalize_text sample_lib ?x"
    by blast
  with sample_lower_ok st v show ?thesis by blast
qed

section \<open>Classifier: normalised patterns\<close>

lemma conditions_hold_normalize_rule:
  assumes "pattern_kept L (merchant r)" and "pattern_kept L (keyword r)"
  shows "conditions_hold L n m i (normalize_rule L r) = conditions_hold L n m i r"
  using assms by (simp add: conditions_hold_def normalize_rule_def pattern_kept_def merchant_target_def)

lemma find_map_normalize:
  assumes "\<forall>r\<in>set rs. P (f r) = P r"
  shows "find P (map f rs) = map_option f (find P rs)"
  using assms by (induction rs) auto

lemma no_alias_fails: "no_alias L r \<Longrightarrow> \<not> conditions_hold L n m i r"
  by (auto simp: no_alias_def conditions_hold_def pattern_matches_def aliases_all_empty_def
      list_all_iff list_ex_iff)

text \<open>
  C10, as amended. For every transaction and every rule list whose patterns the
  replacement keeps in their role (normalising the pattern twice is normalising
  it once, and its normal form is empty only when the pattern is), replacing the
  patterns by their normal forms leaves the result of \<open>_classify\<close> unchanged. In
  literal mode the empty aliases are discarded, so a rule with a declared pattern
  all of whose aliases are empty never matches.
\<close>

theorem classify_normalized_patterns:
  "((\<forall>r\<in>set rules. pattern_kept L (merchant r) \<and> pattern_kept L (keyword r)) \<longrightarrow>
      classify L note merchant_v item (map (normalize_rule L) rules)
        = classify L note merchant_v item rules)
   \<and> (no_alias L r \<longrightarrow>
      classify L note merchant_v item (rs1 @ r # rs2) = classify L note merchant_v item (rs1 @ rs2))"
proof (intro conjI impI)
  assume k: "\<forall>r\<in>set rules. pattern_kept L (merchant r) \<and> pattern_kept L (keyword r)"
  then have "\<forall>r\<in>set rules. conditions_hold L note merchant_v item (normalize_rule L r)
       = conditions_hold L note merchant_v item r"
    by (simp add: conditions_hold_normalize_rule)
  then have "find (conditions_hold L note merchant_v item) (map (normalize_rule L) rules)
      = map_option (normalize_rule L) (find (conditions_hold L note merchant_v item) rules)"
    by (rule find_map_normalize)
  then show "classify L note merchant_v item (map (normalize_rule L) rules)
        = classify L note merchant_v item rules"
    by (simp add: classify_pure normalize_rule_def split: option.splits)
next
  assume "no_alias L r"
  then have "\<not> conditions_hold L note merchant_v item r" by (rule no_alias_fails)
  then show "classify L note merchant_v item (rs1 @ r # rs2) = classify L note merchant_v item (rs1 @ rs2)"
    by (rule classify_skip)
qed

text \<open>
  C10 as stated fails: a merchant pattern that is a zero-width space is declared
  and has no alias, so the rule never matches; its normal form is the empty
  text, which declares no condition, so the rule matches every transaction.
\<close>

theorem classify_normalized_patterns_counterexample:
  "classify sample_lib (Text []) (Text (ascii ''kfc'')) (Text [])
     [normalize_rule sample_lib \<lparr>priority = 1, merchant = [0x200B], keyword = [],
        category = ascii ''A'', subcategory = [], regex = False\<rparr>]
   \<noteq> classify sample_lib (Text []) (Text (ascii ''kfc'')) (Text [])
     [\<lparr>priority = 1, merchant = [0x200B], keyword = [],
        category = ascii ''A'', subcategory = [], regex = False\<rparr>]"
  by (simp add: classify_pure normalize_rule_def classify_eval sample_eval text_eval)

text \<open>
  A full-width merchant pattern is kept in its role and classifies alike before
  and after the replacement; the pattern \<open>|\<close> has two empty aliases and its rule
  is passed over.
\<close>

theorem classify_normalized_patterns_witness:
  "pattern_kept sample_lib [0xFF2B, 0xFF26, 0xFF23] \<and> pattern_kept sample_lib []
   \<and> classify sample_lib (Text []) (Text (ascii ''KFC 1'')) (Text [])
       (map (normalize_rule sample_lib) [\<lparr>priority = 1, merchant = [0xFF2B, 0xFF26, 0xFF23], keyword = [],
        category = ascii ''A'', subcategory = [], regex = False\<rparr>])
     = classify sample_lib (Text []) (Text (ascii ''KFC 1'')) (Text [])
       [\<lparr>priority = 1, merchant = [0xFF2B, 0xFF26, 0xFF23], keyword = [],
        category = ascii ''A'', subcategory = [], regex = False\<rparr>]
   \<and> no_alias sample_lib \<lparr>priority = 1, merchant = ascii ''|'', keyword = [],
        category = ascii ''B'', subcategory = [], regex = False\<rparr>
   \<and> classify sample_lib (Text []) (Text (ascii ''KFC 1'')) (Text [])
       ([] @ \<lparr>priority = 1, merchant = ascii ''|'', keyword = [],
        category = ascii ''B'', subcategory = [], regex = False\<rparr> # [])
     = classify sample_lib (Text []) (Text (ascii ''KFC 1'')) (Text []) ([] @ [])"
proof -
  let ?r = "\<lparr>priority = 1, merchant = [0xFF2B, 0xFF26, 0xFF23], keyword = [],
        category = ascii ''A'', subcategory = [], regex = False\<rparr>"
  let ?b = "\<lparr>priority = 1, merchant = ascii ''|'', keyword = [],
        category = ascii ''B'', subcategory = [], regex = False\<rparr>"
  have k1: "pattern_kept sample_lib [0xFF2B, 0xFF26, 0xFF23]"
    by (simp add: pattern_kept_def normalize_text_def sample_eval text_eval)
  have k2: "pattern_kept sample_lib []"
    by (simp add: pattern_kept_def normalize_text_def sample_eval text_eval)
  have na: "no_alias sample_lib ?b"
    by (simp add: no_alias_def aliases_all_empty_def normalize_text_def sample_eval text_eval)
  from classify_normalized_patterns [of "[?r]" sample_lib "Text []" "Text (ascii ''KFC 1'')" "Text []" ?b "[]" "[]"]
    k1 k2 na
  show ?thesis by simp
qed

section \<open>Rule repository: order of the rules\<close>

lemma sort_reverse_sorted: "sorted (rev (map f (sort_reverse f xs)))"
  by (simp add: sort_reverse_def rev_map)

lemma sort_reverse_stable:
  "filter (\<lambda>y. f y = k) (sort_reverse f xs) = filter (\<lambda>y. f y = k) xs"
proof -
  have "filter (\<lambda>y. f y = k) (sort_reverse f xs) = rev (filter (\<lambda>y. f y = k) (sort_key f (rev xs)))"
    by (simp add: sort_reverse_def rev_filter)
  also have "\<dots> = rev (filter (\<lambda>y. f y = k) (rev xs))"
    by (simp only: sort_key_stable)
  also have "\<dots> = filter (\<lambda>y. f y = k) xs"
    by (simp add: rev_filter)
  finally show ?thesis .
qed

lemma sort_reverse_mset: "mset (sort_reverse f xs) = mset xs"
  by (simp add: sort_reverse_def)

lemma strip_Nil: "strip [] = []"
  by (simp add: strip_def)

lemma row_rule_None:
  "(row_rule L row = None) = (trimmed_category (category_cell row) = [])"
  by (cases "category_cell row")
     (simp_all add: row_rule_def trimmed_category_def isna_def py_str_def Let_def strip_Nil)

lemma row_rule_category:
  "row_rule L row = Some r \<Longrightarrow> category r = trimmed_category (category_cell row)"
  by (cases "category_cell row")
     (auto simp: row_rule_def trimmed_category_def isna_def py_str_def Let_def strip_Nil
           split: if_splits)

lemma map_category_rules:
  "map category (List.map_filter (row_rule L) df)
     = filter (\<lambda>c. c \<noteq> []) (map (\<lambda>row. trimmed_category (category_cell row)) df)"
proof (induction df)
  case Nil
  show ?case by (simp add: List.map_filter_simps)
next
  case (Cons row df)
  show ?case
  proof (cases "row_rule L row")
    case None
    with Cons show ?thesis using row_rule_None [of L row] by (simp add: List.map_filter_simps)
  next
    case (Some r)
    with Cons show ?thesis using row_rule_None [of L row] row_rule_category [OF Some]
      by (simp add: List.map_filter_simps)
  qed
qed

lemma row_rule_priority: "row_rule L row = Some r \<Longrightarrow> priority r = to_int L (priority_cell row)"
  by (auto simp: row_rule_def Let_def split: if_splits)

lemma to_int_fails: "parse_fails L x \<Longrightarrow> to_int L x = 0"
  by (auto simp: parse_fails_def to_int_def split: option.splits)

lemma set_map_filter: "set (List.map_filter g xs) = {y. \<exists>x\<in>set xs. g x = Some y}"
  by (induction xs) (auto simp: List.map_filter_simps split: option.splits)

lemma length_map_filter: "length (List.map_filter g xs) = length (filter (\<lambda>x. g x \<noteq> None) xs)"
  by (induction xs) (auto simp: List.map_filter_simps split: option.splits)

text \<open>
  C2. For every rule table that is loaded, the priorities of the output are in
  non-increasing order; for every priority, the rules of that priority stand in
  the output in the order of their rows in the file; a row whose category cell
  holds no value, or a text that is empty after trimming, yields no rule, and
  every other row yields a rule whose category is the trimmed text, so the
  categories of the output are the non-empty trimmed categories of the rows, each
  as often as there; and a rule whose priority field does not parse has
  priority 0.
\<close>

theorem load_rules_sorted_stable:
  "sorted (rev (map priority (load_category_rules L (Some df))))
   \<and> (\<forall>k. filter (\<lambda>r. priority r = k) (load_category_rules L (Some df))
          = filter (\<lambda>r. priority r = k) (List.map_filter (row_rule L) df))
   \<and> (\<forall>row. category_cell row = NaN \<or> category_cell row = PyNone \<longrightarrow> row_rule L row = None)
   \<and> (\<forall>row s. category_cell row = Text s \<and> strip s = [] \<longrightarrow> row_rule L row = None)
   \<and> (\<forall>row s. category_cell row = Text s \<and> strip s \<noteq> [] \<longrightarrow>
         (\<exists>r. row_rule L row = Some r \<and> category r = strip s))
   \<and> mset (load_category_rules L (Some df)) = mset (List.map_filter (row_rule L) df)
   \<and> mset (map category (load_category_rules L (Some df)))
       = mset (filter (\<lambda>c. c \<noteq> []) (map (\<lambda>row. trimmed_category (category_cell row)) df))
   \<and> (\<forall>r\<in>set (load_category_rules L (Some df)). category r \<noteq> [])
   \<and> length (load_category_rules L (Some df))
       = length (filter (\<lambda>row. trimmed_category (category_cell row) \<noteq> []) df)
   \<and> (\<forall>row r. parse_fails L (priority_cell row) \<and> row_rule L row = Some r \<longrightarrow> priority r = 0)"
proof (intro conjI allI ballI impI)
  show "sorted (rev (map priority (load_category_rules L (Some df))))"
    by (simp add: load_category_rules_def sort_reverse_sorted)
next
  fix k show "filter (\<lambda>r. priority r = k) (load_category_rules L (Some df))
          = filter (\<lambda>r. priority r = k) (List.map_filter (row_rule L) df)"
    by (simp add: load_category_rules_def sort_reverse_stable)
next
  fix row :: rule_row assume "category_cell row = NaN \<or> category_cell row = PyNone"
  then have "trimmed_category (category_cell row) = []" by (auto simp: trimmed_category_def)
  then show "row_rule L row = None" by (simp add: row_rule_None)
next
  fix row :: rule_row and s assume "category_cell row = Text s \<and> strip s = []"
  then have "trimmed_category (category_cell row) = []" by (simp add: trimmed_category_def)
  then show "row_rule L row = None" by (simp add: row_rule_None)
next
  fix row :: rule_row and s assume h: "category_cell row = Text s \<and> strip s \<noteq> []"
  then have t: "trimmed_category (category_cell row) = strip s" by (simp add: trimmed_category_def)
  with h have "row_rule L row \<noteq> None" by (simp add: row_rule_None)
  then obtain r where r: "row_rule L row = Some r" by blast
  from row_rule_category [OF r] t have "category r = strip s" by simp
  with r show "\<exists>r. row_rule L row = Some r \<and> category r = strip s" by blast
next
  show "mset (load_category_rules L (Some df)) = mset (List.map_filter (row_rule L) df)"
    by (simp add: load_category_rules_def sort_reverse_mset)
next
  have "mset (map category (load_category_rules L (Some df)))
      = mset (map category (List.map_filter (row_rule L) df))"
    by (simp add: load_category_rules_def sort_reverse_mset)
  then show "mset (map category (load_category_rules L (Some df)))
       = mset (filter (\<lambda>c. c \<noteq> []) (map (\<lambda>row. trimmed_category (category_cell row)) df))"
    by (simp only: map_category_rules)
next
  fix r assume "r \<in> set (load_category_rules L (Some df))"
  then have "r \<in> set (List.map_filter (row_rule L) df)"
    using sort_reverse_mset [of priority "List.map_filter (row_rule L) df"]
    by (simp add: load_category_rules_def) (metis set_mset_mset)
  then obtain row where rr: "row_rule L row = Some r" by (auto simp: set_map_filter)
  from row_rule_category [OF rr] row_rule_None [of L row] rr show "category r \<noteq> []" by simp
next
  have "length (load_category_rules L (Some df)) = length (List.map_filter (row_rule L) df)"
    using sort_reverse_mset [of priority "List.map_filter (row_rule L) df"]
    by (simp add: load_category_rules_def) (metis size_mset)
  then show "length (load_category_rules L (Some df))
       = length (filter (\<lambda>row. trimmed_category (category_cell row) \<noteq> []) df)"
    by (simp add: length_map_filter row_rule_None)
next
  fix row r assume "parse_fails L (priority_cell row) \<and> row_rule L row = Some r"
  then show "priority r = 0" using row_rule_priority [of L row r] to_int_fails [of L "priority_cell row"]
    by simp
qed

text \<open>
  Six rows: priorities 5, unparsable, 10, 5.9 (which truncates to 5), 7 with a
  blank category and 8 with no value in the category cell. The last two rows are
  dropped, the unparsable priority is 0, and the two rules of priority 5 keep
  their order.
\<close>

theorem load_rules_sorted_stable_witness:
  "parse_fails sample_lib (priority_cell (rule_row_of ''x'' ''m2'' ''C''))
   \<and> map_option priority (row_rule sample_lib (rule_row_of ''x'' ''m2'' ''C'')) = Some 0
   \<and> category_cell (rule_row_of ''7'' ''m5'' '' '') = Text (ascii '' '') \<and> strip (ascii '' '') = []
   \<and> row_rule sample_lib (rule_row_of ''7'' ''m5'' '' '') = None
   \<and> category_cell ((rule_row_of ''8'' ''m6'' ''E'')\<lparr>category_cell := NaN\<rparr>) = NaN
   \<and> row_rule sample_lib ((rule_row_of ''8'' ''m6'' ''E'')\<lparr>category_cell := NaN\<rparr>) = None
   \<and> strip (ascii '' A '') \<noteq> []
   \<and> map_option category (row_rule sample_lib (rule_row_of ''10'' ''m3'' '' A ''))
       = Some (strip (ascii '' A ''))
   \<and> map category (load_category_rules sample_lib (Some
        [rule_row_of ''5'' ''m1'' ''B'', rule_row_of ''x'' ''m2'' ''C'',
         rule_row_of ''10'' ''m3'' '' A '', rule_row_of ''5.9'' ''m4'' ''D'',
         rule_row_of ''7'' ''m5'' '' '',
         (rule_row_of ''8'' ''m6'' ''E'')\<lparr>category_cell := NaN\<rparr>]))
       = map ascii [''A'', ''B'', ''D'', ''C'']
   \<and> map priority (load_category_rules sample_lib (Some
        [rule_row_of ''5'' ''m1'' ''B'', rule_row_of ''x'' ''m2'' ''C'',
         rule_row_of ''10'' ''m3'' '' A '', rule_row_of ''5.9'' ''m4'' ''D'',
         rule_row_of ''7'' ''m5'' '' '',
         (rule_row_of ''8'' ''m6'' ''E'')\<lparr>category_cell := NaN\<rparr>])) = [10, 5, 5, 0]
   \<and> sorted (rev [10, 5, 5, 0 :: int])"
proof -
  let ?blank = "rule_row_of ''7'' ''m5'' '' ''"
  let ?missing = "(rule_row_of ''8'' ''m6'' ''E'')\<lparr>category_cell := NaN\<rparr>"
  let ?padded = "rule_row_of ''10'' ''m3'' '' A ''"
  let ?df = "[rule_row_of ''5'' ''m1'' ''B'', rule_row_of ''x'' ''m2'' ''C'',
         ?padded, rule_row_of ''5.9'' ''m4'' ''D'', ?blank, ?missing]"
  note t = load_rules_sorted_stable [of sample_lib ?df]
  have pf: "parse_fails sample_lib (priority_cell (rule_row_of ''x'' ''m2'' ''C''))"
    by (simp add: loader_eval sample_eval text_eval)
  have rr: "row_rule sample_lib (rule_row_of ''x'' ''m2'' ''C'') \<noteq> None"
    by (simp add: loader_eval sample_eval text_eval)
  from t pf rr have p0: "map_option priority (row_rule sample_lib (rule_row_of ''x'' ''m2'' ''C'')) = Some 0"
    by (cases "row_rule sample_lib (rule_row_of ''x'' ''m2'' ''C'')") auto
  have b1: "category_cell ?blank = Text (ascii '' '') \<and> strip (ascii '' '') = []"
    by (simp add: rule_row_of_def text_eval)
  with t have b2: "row_rule sample_lib ?blank = None" by blast
  have m1: "category_cell ?missing = NaN" by simp
  with t have m2: "row_rule sample_lib ?missing = None" by blast
  have c1: "category_cell ?padded = Text (ascii '' A '') \<and> strip (ascii '' A '') \<noteq> []"
    by (simp add: rule_row_of_def text_eval)
  with t obtain r where "row_rule sample_lib ?padded = Some r \<and> category r = strip (ascii '' A '')"
    by blast
  then have c2: "map_option category (row_rule sample_lib ?padded) = Some (strip (ascii '' A ''))"
    by auto
  have cs: "map category (load_category_rules sample_lib (Some ?df)) = map ascii [''A'', ''B'', ''D'', ''C'']"
    by (simp add: loader_eval sample_eval text_eval)
  have ps: "map priority (load_category_rules sample_lib (Some ?df)) = [10, 5, 5, 0]"
    by (simp add: loader_eval sample_eval text_eval)
  from t have "sorted (rev (map priority (load_category_rules sample_lib (Some ?df))))" by blast
  then have so: "sorted (rev [10, 5, 5, 0 :: int])" unfolding ps .
  from pf p0 b1 b2 m1 m2 c1 c2 cs ps so show ?thesis by blast
qed

section \<open>Merger: the steps of main\<close>

lemma classify_rows_total: "classify_rows L rules ts = Inr (map (classified L rules) ts)"
  by (induction ts) (simp_all add: classify_pure classified_def split: option.splits)

lemma main_unfold:
  "main L files rf =
     (if List.map_filter (adapt L) files = [] then NoOutput
      else if concat (List.map_filter (adapt L) files) = [] then Raised KeyError
      else Done (map (classified L (load_category_rules L rf)) (sort_values L (merged_valid L files))))"
  by (simp add: main_def Let_def classify_rows_total merged_valid_def classified_def)

lemma txn_of_classified: "txn_of (classified L rules t) = t"
  by (simp add: classified_def split: option.splits)


lemma argsort_indices:
  assumes "argsort_ok L"
  shows "set (argsort L ks) = {0..<length ks}"
proof -
  from assms have "mset (argsort L ks) = mset [0..<length ks]" by (simp add: argsort_ok_def)
  then have "set (argsort L ks) = set [0..<length ks]" by (metis set_mset_mset)
  then show ?thesis by simp
qed

lemma sort_values_mset:
  assumes "argsort_ok L"
  shows "mset (sort_values L xs) = mset xs"
proof -
  let ?ks = "map (\<lambda>t. the (row_date t)) xs"
  from assms have "mset (argsort L ?ks) = mset [0..<length xs]" by (simp add: argsort_ok_def)
  then have "mset (map (\<lambda>i. xs ! i) (argsort L ?ks)) = mset (map (\<lambda>i. xs ! i) [0..<length xs])"
    by (metis mset_map)
  then show ?thesis by (simp add: sort_values_def map_nth)
qed

lemma sort_values_sorted:
  assumes "argsort_ok L"
  shows "sorted (map (\<lambda>t. the (row_date t)) (sort_values L xs))"
proof -
  let ?ks = "map (\<lambda>t. the (row_date t)) xs"
  have "map (\<lambda>t. the (row_date t)) (sort_values L xs) = map (\<lambda>i. ?ks ! i) (argsort L ?ks)"
    using argsort_indices [OF assms, of ?ks] by (auto simp: sort_values_def)
  moreover from assms have "sorted (map (\<lambda>i. ?ks ! i) (argsort L ?ks))"
    by (simp add: argsort_ok_def)
  ultimately show ?thesis by simp
qed

lemma sorted_index_keys:
  assumes "\<forall>p\<in>set ps. snd p < length ks \<and> ks ! snd p = fst p"
  shows "map (\<lambda>i. ks ! i) (map snd ps) = map fst ps"
  using assms by (induction ps) auto

lemma zip_index_keys: "\<forall>p\<in>set (zip ks [0..<length ks]). snd p < length ks \<and> ks ! snd p = fst p"
  by (auto simp: set_zip)

lemma sample_argsort_ok_aux:
  "mset (sample_argsort ks) = mset [0..<length ks]
   \<and> sorted (map (\<lambda>i. ks ! i) (sample_argsort ks))"
proof
  have "mset (sample_argsort ks) = mset (map snd (zip ks [0..<length ks]))"
    unfolding sample_argsort_def by (metis mset_map mset_sort)
  then show "mset (sample_argsort ks) = mset [0..<length ks]" by simp
next
  let ?zs = "zip ks [0..<length ks]"
  have "\<forall>p\<in>set (sort_key fst ?zs). snd p < length ks \<and> ks ! snd p = fst p"
    using zip_index_keys [of ks] by simp
  then have "map (\<lambda>i. ks ! i) (map snd (sort_key fst ?zs)) = map fst (sort_key fst ?zs)"
    by (rule sorted_index_keys)
  moreover have "sorted (map fst (sort_key fst ?zs))" by (rule sorted_sort_key)
  ultimately show "sorted (map (\<lambda>i. ks ! i) (sample_argsort ks))"
    unfolding sample_argsort_def by (simp only:)
qed

lemma sample_argsort_ok: "argsort_ok sample_lib"
  by (simp add: argsort_ok_def sample_lib_def sample_argsort_ok_aux)



lemmas main_eval = main_unfold merged_valid_def valid_rows_def sort_values_def classified_def
  load_category_rules_def sample_argsort_def unstable_argsort_def tie_lib_def

section \<open>Merger: the ledger is sorted by date\<close>




section \<open>Merger: the order of the input files\<close>

lemma swap_nil: "(List.map_filter f [A, B] = []) = (List.map_filter f [B, A] = [])"
  by (auto simp: List.map_filter_simps split: option.splits)

lemma swap_concat_nil:
  "(concat (List.map_filter f [A, B]) = []) = (concat (List.map_filter f [B, A]) = [])"
  by (auto simp: List.map_filter_simps split: option.splits)

lemma swap_mset:
  "mset (concat (List.map_filter f [A, B])) = mset (concat (List.map_filter f [B, A]))"
  by (auto simp: List.map_filter_simps split: option.splits)

lemma merged_valid_swap: "mset (merged_valid L [A, B]) = mset (merged_valid L [B, A])"
  by (simp only: merged_valid_def valid_rows_def mset_filter swap_mset [of "adapt L" A B])

lemma sorted_same_mset:
  fixes xs ys :: "int list"
  assumes "sorted xs" and "sorted ys" and "mset xs = mset ys"
  shows "xs = ys"
proof -
  from assms(1,3) have "sort ys = xs" by (simp add: properties_for_sort)
  moreover from assms(2) have "sort ys = ys" by (simp add: sorted_sort_id)
  ultimately show ?thesis by simp
qed

lemma valid_date: "t \<in> set (merged_valid L files) \<Longrightarrow> row_date t \<noteq> None"
  by (simp add: merged_valid_def valid_rows_def)

lemma sort_values_dates_swap:
  assumes "argsort_ok L"
  shows "map (\<lambda>t. the (row_date t)) (sort_values L (merged_valid L [A, B]))
       = map (\<lambda>t. the (row_date t)) (sort_values L (merged_valid L [B, A]))"
proof (rule sorted_same_mset)
  show "sorted (map (\<lambda>t. the (row_date t)) (sort_values L (merged_valid L [A, B])))"
    by (rule sort_values_sorted [OF assms])
  show "sorted (map (\<lambda>t. the (row_date t)) (sort_values L (merged_valid L [B, A])))"
    by (rule sort_values_sorted [OF assms])
  have "mset (sort_values L (merged_valid L [A, B])) = mset (sort_values L (merged_valid L [B, A]))"
    by (simp add: sort_values_mset [OF assms] merged_valid_swap)
  then show "mset (map (\<lambda>t. the (row_date t)) (sort_values L (merged_valid L [A, B])))
     = mset (map (\<lambda>t. the (row_date t)) (sort_values L (merged_valid L [B, A])))"
    by (metis mset_map)
qed

lemma sort_values_swap:
  assumes ok: "argsort_ok L" and inj: "inj_on row_date (set (merged_valid L [A, B]))"
  shows "sort_values L (merged_valid L [A, B]) = sort_values L (merged_valid L [B, A])"
proof -
  let ?s1 = "sort_values L (merged_valid L [A, B])"
  let ?s2 = "sort_values L (merged_valid L [B, A])"
  have s1: "set ?s1 = set (merged_valid L [A, B])"
    using sort_values_mset [OF ok, of "merged_valid L [A, B]"] by (metis set_mset_mset)
  have s2: "set ?s2 = set (merged_valid L [A, B])"
    using sort_values_mset [OF ok, of "merged_valid L [B, A]"] merged_valid_swap [of L A B]
    by (metis set_mset_mset)
  have "inj_on (\<lambda>t. the (row_date t)) (set (merged_valid L [A, B]))"
  proof (rule inj_onI)
    fix x y assume x: "x \<in> set (merged_valid L [A, B])" and y: "y \<in> set (merged_valid L [A, B])"
      and e: "the (row_date x) = the (row_date y)"
    from valid_date [OF x] valid_date [OF y] e have "row_date x = row_date y"
      by (metis option.collapse)
    with inj x y show "x = y" by (auto dest: inj_onD)
  qed
  then have "inj_on (\<lambda>t. the (row_date t)) (set ?s1 \<union> set ?s2)" by (simp add: s1 s2)
  then show ?thesis
    using sort_values_dates_swap [OF ok, of A B] by (simp add: inj_on_map_eq_map)
qed

lemma ledger_dates_classified:
  "ledger_dates (map (classified L rules) ts) = map (\<lambda>t. the (row_date t)) ts"
  by (simp add: ledger_dates_def txn_of_classified comp_def)

text \<open>
  C8, as amended. For every two input tables, merging them in either order gives
  ledgers with the same rows, each as often in the one as in the other, and the
  same sequence of dates; the two ledgers are identical whenever no two
  different rows of the merged table have the same date. (They need not be
  identical otherwise: see the theorem after this one.)
\<close>

theorem merge_order_same_rows:
  "argsort_ok L \<longrightarrow>
     (\<forall>l1. main L [A, B] rule_file = Done l1 \<longrightarrow>
        (\<exists>l2. main L [B, A] rule_file = Done l2 \<and> mset l1 = mset l2
              \<and> ledger_dates l1 = ledger_dates l2))
     \<and> (inj_on row_date (set (merged_valid L [A, B])) \<longrightarrow>
          main L [A, B] rule_file = main L [B, A] rule_file)"
proof (intro impI conjI allI)
  fix l1
  assume ok: "argsort_ok L" and d: "main L [A, B] rule_file = Done l1"
  let ?g = "classified L (load_category_rules L rule_file)"
  let ?l2 = "map ?g (sort_values L (merged_valid L [B, A]))"
  from d have l1: "l1 = map ?g (sort_values L (merged_valid L [A, B]))"
    and n1: "List.map_filter (adapt L) [A, B] \<noteq> []"
    and n2: "concat (List.map_filter (adapt L) [A, B]) \<noteq> []"
    by (simp_all add: main_unfold split: if_splits del: List.map_filter_simps)
  from n1 n2 have m2: "main L [B, A] rule_file = Done ?l2"
    using swap_nil [of "adapt L" A B] swap_concat_nil [of "adapt L" A B]
    by (simp add: main_unfold del: List.map_filter_simps concat_eq_Nil_conv)
  have "mset (sort_values L (merged_valid L [A, B])) = mset (sort_values L (merged_valid L [B, A]))"
    by (simp add: sort_values_mset [OF ok] merged_valid_swap)
  then have ms: "mset l1 = mset ?l2" unfolding l1 by (metis mset_map)
  have ds: "ledger_dates l1 = ledger_dates ?l2"
    unfolding l1 ledger_dates_classified by (rule sort_values_dates_swap [OF ok])
  from m2 ms ds
  show "\<exists>l2. main L [B, A] rule_file = Done l2 \<and> mset l1 = mset l2 \<and> ledger_dates l1 = ledger_dates l2"
    by blast
next
  assume ok: "argsort_ok L" and inj: "inj_on row_date (set (merged_valid L [A, B]))"
  show "main L [A, B] rule_file = main L [B, A] rule_file"
    using swap_nil [of "adapt L" A B] swap_concat_nil [of "adapt L" A B]
      sort_values_swap [OF ok inj]
    by (simp add: main_unfold del: List.map_filter_simps concat_eq_Nil_conv)
qed

text \<open>
  C8 as stated fails: two tables with one row each, of the same day. The sort
  permutation depends on the date column alone, which is the same in both
  orders, so the two rows come out in the order the tables were given.
\<close>

theorem merge_order_counterexample:
  "main sample_lib [frame [(''2024-01-05'', ''12.00'', ''a'')],
                    frame [(''2024-01-05'', ''12.00'', ''b'')]] None
     = Done [unclassified (alipay_txn 752932 (Fin 12) ''a''),
             unclassified (alipay_txn 752932 (Fin 12) ''b'')]
   \<and> main sample_lib [frame [(''2024-01-05'', ''12.00'', ''b'')],
                      frame [(''2024-01-05'', ''12.00'', ''a'')]] None
     = Done [unclassified (alipay_txn 752932 (Fin 12) ''b''),
             unclassified (alipay_txn 752932 (Fin 12) ''a'')]
   \<and> main sample_lib [frame [(''2024-01-05'', ''12.00'', ''a'')],
                    frame [(''2024-01-05'', ''12.00'', ''b'')]] None
     \<noteq> main sample_lib [frame [(''2024-01-05'', ''12.00'', ''b'')],
                      frame [(''2024-01-05'', ''12.00'', ''a'')]] None"
proof -
  have a: "adapt sample_lib (frame [(''2024-01-05'', ''12.00'', ''a'')])
     = Some [alipay_txn 752932 (Fin 12) ''a'']"
    by (simp add: frame_eval adapter_eval sample_eval text_eval)
  have b: "adapt sample_lib (frame [(''2024-01-05'', ''12.00'', ''b'')])
     = Some [alipay_txn 752932 (Fin 12) ''b'']"
    by (simp add: frame_eval adapter_eval sample_eval text_eval)
  have ab: "main sample_lib [frame [(''2024-01-05'', ''12.00'', ''a'')],
                    frame [(''2024-01-05'', ''12.00'', ''b'')]] None
     = Done [unclassified (alipay_txn 752932 (Fin 12) ''a''),
             unclassified (alipay_txn 752932 (Fin 12) ''b'')]"
    by (simp add: main_eval List.map_filter_simps a b)
       (simp add: sample_lib_def sample_argsort_def alipay_txn_def unclassified_def classified_def)
  have ba: "main sample_lib [frame [(''2024-01-05'', ''12.00'', ''b'')],
                      frame [(''2024-01-05'', ''12.00'', ''a'')]] None
     = Done [unclassified (alipay_txn 752932 (Fin 12) ''b''),
             unclassified (alipay_txn 752932 (Fin 12) ''a'')]"
    by (simp add: main_eval List.map_filter_simps a b)
       (simp add: sample_lib_def sample_argsort_def alipay_txn_def unclassified_def classified_def)
  show ?thesis unfolding ab ba by (simp add: unclassified_def alipay_txn_def ascii_def)
qed

text \<open>Two tables with rows of different days: the ledger is the same in both orders.\<close>

theorem merge_order_same_rows_witness:
  "argsort_ok sample_lib
   \<and> inj_on row_date (set (merged_valid sample_lib
        [frame [(''2024-01-07'', ''12.00'', ''a'')], frame [(''2024-01-05'', ''3.50'', ''b'')]]))
   \<and> main sample_lib [frame [(''2024-01-07'', ''12.00'', ''a'')],
                      frame [(''2024-01-05'', ''3.50'', ''b'')]] None
     = Done [unclassified (alipay_txn 752932 (Fin 3.5) ''b''),
             unclassified (alipay_txn 752934 (Fin 12) ''a'')]
   \<and> main sample_lib [frame [(''2024-01-07'', ''12.00'', ''a'')],
                      frame [(''2024-01-05'', ''3.50'', ''b'')]] None
     = main sample_lib [frame [(''2024-01-05'', ''3.50'', ''b'')],
                        frame [(''2024-01-07'', ''12.00'', ''a'')]] None"
proof -
  let ?A = "frame [(''2024-01-07'', ''12.00'', ''a'')]"
  let ?B = "frame [(''2024-01-05'', ''3.50'', ''b'')]"
  have a: "adapt sample_lib ?A = Some [alipay_txn 752934 (Fin 12) ''a'']"
    by (simp add: frame_eval adapter_eval sample_eval text_eval)
  have b: "adapt sample_lib ?B = Some [alipay_txn 752932 (Fin 3.5) ''b'']"
    by (simp add: frame_eval adapter_eval sample_eval text_eval)
  have mv: "merged_valid sample_lib [?A, ?B]
      = [alipay_txn 752934 (Fin 12) ''a'', alipay_txn 752932 (Fin 3.5) ''b'']"
    by (simp add: merged_valid_def valid_rows_def List.map_filter_simps a b)
       (simp add: alipay_txn_def)
  have inj: "inj_on row_date (set (merged_valid sample_lib [?A, ?B]))"
    unfolding mv by (simp add: alipay_txn_def)
  have m: "main sample_lib [?A, ?B] None
     = Done [unclassified (alipay_txn 752932 (Fin 3.5) ''b''),
             unclassified (alipay_txn 752934 (Fin 12) ''a'')]"
    unfolding main_unfold mv
    by (simp add: List.map_filter_simps a b sort_values_def classified_def load_category_rules_def)
       (simp add: sample_lib_def sample_argsort_def alipay_txn_def unclassified_def classified_def)
  from merge_order_same_rows [of sample_lib ?A ?B None] sample_argsort_ok inj
  have "main sample_lib [?A, ?B] None = main sample_lib [?B, ?A] None" by blast
  with sample_argsort_ok inj m show ?thesis by simp
qed

section \<open>Source adapters: the stored amount\<close>




lemma py_abs_sign: "\<not> float_lt0 (py_abs f) \<and> (float_ge0 (py_abs f) \<or> py_abs f = NotANumber)"
  by (cases f) (simp_all add: py_abs_def float_lt0_def float_ge0_def)

lemma alipay_row_amount:
  "alipay_row L df ct ci ca cm cit cs cme cn r = Some t \<Longrightarrow> \<exists>amt. row_amount t = py_abs amt"
  by (auto simp: alipay_row_def Let_def split: option.splits)

lemma wechat_row_amount:
  "wechat_row L df ct cty ca ci cm cit cs cme cn r = Some t \<Longrightarrow> \<exists>amt. row_amount t = py_abs amt"
  by (auto simp: wechat_row_def Let_def split: option.splits)

lemma parse_alipay_amount:
  "parse_alipay L df = Some out \<Longrightarrow> t \<in> set out \<Longrightarrow> \<exists>amt. row_amount t = py_abs amt"
  by (auto simp: parse_alipay_def Let_def set_map_filter split: if_splits dest: alipay_row_amount
      simp del: List.map_filter_simps)

lemma parse_wechat_amount:
  "parse_wechat L df = Some out \<Longrightarrow> t \<in> set out \<Longrightarrow> \<exists>amt. row_amount t = py_abs amt"
  by (auto simp: parse_wechat_def Let_def set_map_filter split: if_splits dest: wechat_row_amount
      simp del: List.map_filter_simps)

lemma adapt_amount:
  "adapt L df = Some out \<Longrightarrow> t \<in> set out \<Longrightarrow> \<exists>amt. row_amount t = py_abs amt"
  by (auto simp: adapt_def split: option.splits dest: parse_alipay_amount parse_wechat_amount)

lemma merged_valid_amount:
  assumes "t \<in> set (merged_valid L files)"
  shows "float_ge0 (row_amount t)"
proof -
  from assms have nn: "row_amount t \<noteq> NotANumber"
    and "t \<in> set (concat (List.map_filter (adapt L) files))"
    by (simp_all add: merged_valid_def valid_rows_def del: List.map_filter_simps)
  then obtain out where "out \<in> set (List.map_filter (adapt L) files)" and t: "t \<in> set out"
    by auto
  then obtain df where "adapt L df = Some out" by (auto simp: set_map_filter)
  from adapt_amount [OF this t] obtain amt where "row_amount t = py_abs amt" ..
  with nn py_abs_sign [of amt] show ?thesis by auto
qed

text \<open>
  C6, as amended. For every row emitted by the Alipay or the WeChat adapter the
  stored amount is never below zero: it is at least zero or it is NaN, whatever
  minus signs, currency symbols, separators or parentheses the source value has.
  Every row of the ledger \<open>main\<close> produces has an amount of at least zero, since
  \<open>main\<close> drops the rows with a NaN amount. A row whose amount text is
  \<open>(\<yen>1,234.50)\<close> is stored with the amount 1234.50 by both adapters
  (\<open>_clean_amount\<close> itself gives -1234.50, the adapter takes the absolute value).
\<close>

theorem adapter_amount_not_negative:
  "((parse_alipay L df = Some out \<or> parse_wechat L df = Some out) \<longrightarrow>
      (\<forall>t\<in>set out. \<not> float_lt0 (row_amount t)
                     \<and> (float_ge0 (row_amount t) \<or> row_amount t = NotANumber)))
   \<and> (argsort_ok L \<and> main L files rule_file = Done ledger \<longrightarrow>
        (\<forall>l\<in>set ledger. float_ge0 (row_amount (txn_of l))))
   \<and> (py_float L (ascii ''-1234.50'') = Some (Fin (- 1234.5))
        \<and> row_get df r c_amount PyNone = Text paren_amount \<longrightarrow>
        map_option row_amount
          (alipay_row L df c_time c_io c_amount c_merchant c_item c_status c_method c_note r)
          = Some (Fin 1234.5)
        \<and> map_option row_amount
          (wechat_row L df c_time c_type c_amount c_io c_merchant c_item c_status c_method c_note r)
          = Some (Fin 1234.5))"
proof (intro conjI impI ballI)
  fix t assume "parse_alipay L df = Some out \<or> parse_wechat L df = Some out" and "t \<in> set out"
  then obtain amt where a: "row_amount t = py_abs amt"
    using parse_alipay_amount parse_wechat_amount by blast
  show "\<not> float_lt0 (row_amount t)" unfolding a using py_abs_sign by blast
  show "float_ge0 (row_amount t) \<or> row_amount t = NotANumber" unfolding a using py_abs_sign by blast
next
  fix l assume h: "argsort_ok L \<and> main L files rule_file = Done ledger" and l: "l \<in> set ledger"
  from h have led: "ledger = map (classified L (load_category_rules L rule_file))
      (sort_values L (merged_valid L files))"
    by (simp add: main_unfold split: if_splits del: List.map_filter_simps)
  from l have "txn_of l \<in> set (sort_values L (merged_valid L files))"
    unfolding led by (auto simp: txn_of_classified)
  moreover have "set (sort_values L (merged_valid L files)) = set (merged_valid L files)"
    using h sort_values_mset [of L "merged_valid L files"] by (metis set_mset_mset)
  ultimately show "float_ge0 (row_amount (txn_of l))" by (simp add: merged_valid_amount)
next
  assume h: "py_float L (ascii ''-1234.50'') = Some (Fin (- 1234.5))
        \<and> row_get df r c_amount PyNone = Text paren_amount"
  have "clean_amount L (Text paren_amount) = py_float L (ascii ''-1234.50'')"
    by (simp add: clean_amount_def paren_amount_def text_eval)
  with h have c: "clean_amount L (row_get df r c_amount PyNone) = Some (Fin (- 1234.5))" by simp
  show "map_option row_amount
          (alipay_row L df c_time c_io c_amount c_merchant c_item c_status c_method c_note r)
          = Some (Fin 1234.5)"
    by (simp add: alipay_row_def c py_abs_def)
  show "map_option row_amount
          (wechat_row L df c_time c_type c_amount c_io c_merchant c_item c_status c_method c_note r)
          = Some (Fin 1234.5)"
    by (simp add: wechat_row_def c py_abs_def)
qed

text \<open>
  C6 as stated fails: \<open>float("NAN")\<close> is NaN, which \<open>_clean_amount\<close> returns and the
  adapter stores after \<open>abs\<close>; NaN is not at least zero.
\<close>

theorem adapter_amount_counterexample:
  "map_option (map row_amount) (parse_alipay sample_lib (frame [(''2024-01-05'', ''NAN'', ''a'')]))
     = Some [NotANumber]
   \<and> \<not> float_ge0 NotANumber"
  by (simp add: frame_eval adapter_eval sample_eval text_eval float_ge0_def)

text \<open>The scenario of the design: the amount \<open>(\<yen>1,234.50)\<close> in an Alipay table.\<close>

theorem adapter_amount_not_negative_witness:
  "parse_alipay sample_lib paren_frame = Some [alipay_txn 752932 (Fin 1234.5) ''a'']
   \<and> float_ge0 (row_amount (alipay_txn 752932 (Fin 1234.5) ''a''))
   \<and> argsort_ok sample_lib
   \<and> main sample_lib [paren_frame] None = Done [unclassified (alipay_txn 752932 (Fin 1234.5) ''a'')]
   \<and> float_ge0 (row_amount (txn_of (unclassified (alipay_txn 752932 (Fin 1234.5) ''a''))))
   \<and> py_float sample_lib (ascii ''-1234.50'') = Some (Fin (- 1234.5))
   \<and> row_get paren_frame (hd (rows paren_frame)) (Some amount_col) PyNone = Text paren_amount
   \<and> map_option row_amount
        (alipay_row sample_lib paren_frame (Some time_col) None (Some amount_col) None None None None
           None (hd (rows paren_frame))) = Some (Fin 1234.5)"
proof -
  have p: "parse_alipay sample_lib paren_frame = Some [alipay_txn 752932 (Fin 1234.5) ''a'']"
    by (simp add: paren_frame_def paren_amount_def frame_eval adapter_eval sample_eval text_eval)
  have a: "adapt sample_lib paren_frame = Some [alipay_txn 752932 (Fin 1234.5) ''a'']"
    by (simp add: adapt_def p)
  have mv: "merged_valid sample_lib [paren_frame] = [alipay_txn 752932 (Fin 1234.5) ''a'']"
    by (simp add: merged_valid_def valid_rows_def List.map_filter_simps a)
       (simp add: alipay_txn_def)
  have m: "main sample_lib [paren_frame] None = Done [unclassified (alipay_txn 752932 (Fin 1234.5) ''a'')]"
    unfolding main_unfold mv
    by (simp add: List.map_filter_simps a sort_values_def classified_def load_category_rules_def)
       (simp add: sample_lib_def sample_argsort_def alipay_txn_def unclassified_def classified_def)
  have f: "py_float sample_lib (ascii ''-1234.50'') = Some (Fin (- 1234.5))"
    by (simp add: sample_eval text_eval sample_float_def sample_unsigned_def is_digit_def)
  have g: "row_get paren_frame (hd (rows paren_frame)) (Some amount_col) PyNone = Text paren_amount"
    by (simp add: paren_frame_def row_get_def frame_eval)
  note t = adapter_amount_not_negative [of sample_lib paren_frame
      "[alipay_txn 752932 (Fin 1234.5) ''a'']" "[paren_frame]" None
      "[unclassified (alipay_txn 752932 (Fin 1234.5) ''a'')]" "hd (rows paren_frame)"
      "Some amount_col" "Some time_col" None None None None None None None]
  from t p have 1: "float_ge0 (row_amount (alipay_txn 752932 (Fin 1234.5) ''a''))"
    by (simp add: alipay_txn_def float_ge0_def)
  from t sample_argsort_ok m
  have 2: "float_ge0 (row_amount (txn_of (unclassified (alipay_txn 752932 (Fin 1234.5) ''a''))))"
    by simp
  from t f g have 3: "map_option row_amount
        (alipay_row sample_lib paren_frame (Some time_col) None (Some amount_col) None None None None
           None (hd (rows paren_frame))) = Some (Fin 1234.5)"
    by blast
  from p 1 sample_argsort_ok m 2 f g 3 show ?thesis by blast
qed

section \<open>Source adapters: direction inference\<close>




















end
